theory Spec2Isabelle
  imports Complex_Main "HOL-Library.AList"
begin

section \<open>Protocol types (types/game.ts)\<close>

text \<open>
  The connection manager of the game bridge: a client object that owns one socket, a table
  of requests in flight, the child process it launched and the command list it cached.
  The client is driven by events (socket data, socket close, timers, write callbacks), so
  the model is a record of the client's fields, extended with what the runtime holds for
  it (timers, promises, the bytes written, the clock), and one function per method or
  event handler that takes the record and returns it updated.
\<close>

datatype ConnectionState = Disconnected | Connecting | Connected

text \<open>
  A value as \<open>JSON.parse\<close> returns it. An object is the list of its keys with their
  values, each key once (a JavaScript object holds one value per key).
\<close>

datatype json =
    JNull
  | JBool bool
  | JNum rat
  | JStr string
  | JArr "json list"
  | JObj "(string \<times> json) list"

text \<open>\<open>GameRequest\<close>: the line written to the socket is \<open>JSON.stringify\<close> of it, plus a newline.\<close>

record GameRequest =
  req_id :: string
  command :: string
  args :: "(string \<times> json) list"

text \<open>\<open>GameResponse\<close>; an optional field that is absent is \<open>None\<close>.\<close>

record GameResponse =
  id' :: string
  success :: bool
  data :: "json option"
  image' :: "string option"
  error :: "string option"

record CommandArg =
  type' :: string
  optional :: "bool option"
  arg_description :: "string option"

record CommandInfo =
  name :: string
  description :: string
  cmd_args :: "(string \<times> CommandArg) list option"

record Config =
  projectPath :: "string option"
  port :: int
  godotPath :: string
  connectTimeoutMs :: int
  commandTimeoutMs :: int

subsection \<open>The zod schemas\<close>

text \<open>\<open>z.string()\<close> and \<open>z.boolean()\<close>: the value, or nothing when the type is wrong.\<close>

fun z_string :: "json \<Rightarrow> string option" where
  "z_string (JStr s) = Some s"
| "z_string _ = None"

fun z_boolean :: "json \<Rightarrow> bool option" where
  "z_boolean (JBool b) = Some b"
| "z_boolean _ = None"

text \<open>
  A required key of an object, and an \<open>.optional()\<close> one: an absent key is accepted as
  undefined (\<open>Some None\<close>), a present one must validate (\<open>null\<close> does not).
\<close>

definition z_required :: "(json \<Rightarrow> 'a option) \<Rightarrow> (string \<times> json) list \<Rightarrow> string \<Rightarrow> 'a option" where
  "z_required schema kvs k =
     (case map_of kvs k of None \<Rightarrow> None | Some v \<Rightarrow> schema v)"

definition z_optional :: "(json \<Rightarrow> 'a option) \<Rightarrow> (string \<times> json) list \<Rightarrow> string \<Rightarrow> 'a option option" where
  "z_optional schema kvs k =
     (case map_of kvs k of None \<Rightarrow> Some None | Some v \<Rightarrow> map_option Some (schema v))"

text \<open>
  \<open>z.record(schema)\<close>: an object all of whose values validate; zod leaves a key named
  \<open>__proto__\<close> out of the result (its value is validated all the same).
\<close>

definition z_record :: "(json \<Rightarrow> 'a option) \<Rightarrow> json \<Rightarrow> (string \<times> 'a) list option" where
  "z_record schema j =
     (case j of
        JObj kvs \<Rightarrow>
          map_option (filter (\<lambda>(k, v). k \<noteq> ''__proto__''))
            (those (map (\<lambda>(k, v). map_option (Pair k) (schema v)) kvs))
      | _ \<Rightarrow> None)"

text \<open>\<open>z.array(schema)\<close>.\<close>

definition z_array :: "(json \<Rightarrow> 'a option) \<Rightarrow> json \<Rightarrow> 'a list option" where
  "z_array schema j = (case j of JArr xs \<Rightarrow> those (map schema xs) | _ \<Rightarrow> None)"

text \<open>\<open>GameResponseSchema.parse\<close>; \<open>None\<close> is the ZodError it throws.\<close>

definition GameResponseSchema :: "json \<Rightarrow> GameResponse option" where
  "GameResponseSchema j =
     (case j of
        JObj kvs \<Rightarrow>
          (case (z_required z_string kvs ''id'', z_required z_boolean kvs ''success'',
                 z_optional z_string kvs ''image'', z_optional z_string kvs ''error'') of
             (Some i, Some s, Some im, Some er) \<Rightarrow>
               Some \<lparr>id' = i, success = s, data = map_of kvs ''data'', image' = im, error = er\<rparr>
           | _ \<Rightarrow> None)
      | _ \<Rightarrow> None)"

definition CommandArgSchema :: "json \<Rightarrow> CommandArg option" where
  "CommandArgSchema j =
     (case j of
        JObj kvs \<Rightarrow>
          (case (z_required z_string kvs ''type'', z_optional z_boolean kvs ''optional'',
                 z_optional z_string kvs ''description'') of
             (Some t, Some opt, Some d) \<Rightarrow>
               Some \<lparr>type' = t, optional = opt, arg_description = d\<rparr>
           | _ \<Rightarrow> None)
      | _ \<Rightarrow> None)"

definition CommandInfoSchema :: "json \<Rightarrow> CommandInfo option" where
  "CommandInfoSchema j =
     (case j of
        JObj kvs \<Rightarrow>
          (case (z_required z_string kvs ''name'', z_required z_string kvs ''description'',
                 z_optional (z_record CommandArgSchema) kvs ''args'') of
             (Some n, Some d, Some a) \<Rightarrow> Some \<lparr>name = n, description = d, cmd_args = a\<rparr>
           | _ \<Rightarrow> None)
      | _ \<Rightarrow> None)"

text \<open>\<open>ListCommandsResponseSchema.safeParse\<close>, giving \<open>parsed.data.commands\<close> on success.\<close>

definition ListCommandsResponseSchema :: "json \<Rightarrow> CommandInfo list option" where
  "ListCommandsResponseSchema j =
     (case j of
        JObj kvs \<Rightarrow> z_required (z_array CommandInfoSchema) kvs ''commands''
      | _ \<Rightarrow> None)"

text \<open>JavaScript truthiness of a parsed value (\<open>response.success && response.data\<close>).\<close>

fun truthy :: "json \<Rightarrow> bool" where
  "truthy JNull = False"
| "truthy (JBool b) = b"
| "truthy (JNum n) = (n \<noteq> 0)"
| "truthy (JStr s) = (s \<noteq> [])"
| "truthy (JArr xs) = True"
| "truthy (JObj kvs) = True"

text \<open>
  \<open>a || b\<close> on an optional number and on an optional string: undefined, \<open>0\<close> and the
  empty string are falsy and give way to the right operand.
\<close>

definition or_number :: "int option \<Rightarrow> int \<Rightarrow> int" where
  "or_number a b = (case a of None \<Rightarrow> b | Some v \<Rightarrow> if v = 0 then b else v)"

definition or_string :: "string option \<Rightarrow> string option \<Rightarrow> string option" where
  "or_string a b = (case a of None \<Rightarrow> b | Some s \<Rightarrow> if s = [] then b else Some s)"

text \<open>An optional string where it is truthy (\<open>if (!projectPath)\<close> takes the other branch).\<close>

definition truthy_string :: "string option \<Rightarrow> string option" where
  "truthy_string a = (case a of None \<Rightarrow> None | Some s \<Rightarrow> if s = [] then None else Some s)"

text \<open>
  A number inside a template literal. Timeouts and exit codes are modelled as integers (a
  timeout that is not a whole number, a fraction or \<open>NaN\<close>, is outside the model).
  For a safe integer (at most \<open>2^53 - 1\<close> in absolute value, every one of them a double)
  JavaScript prints the decimal digits, a minus sign first when negative: that is
  \<open>show_int\<close>. Beyond, JavaScript prints the shortest digits that read back as the same
  double, padded with zeros, and from \<open>10^21\<close> on the exponent form (\<open>1e+21\<close>), neither of
  which \<open>show_int\<close> gives: a statement about the text of a number holds within \<open>printable\<close>
  only.
\<close>

definition digit :: "nat \<Rightarrow> char" where
  "digit d = ''0123456789'' ! d"

fun show_nat :: "nat \<Rightarrow> string" where
  "show_nat n = (if n < 10 then [digit n] else show_nat (n div 10) @ [digit (n mod 10)])"

declare show_nat.simps [simp del]

definition show_int :: "int \<Rightarrow> string" where
  "show_int i = (if i < 0 then CHR ''-'' # show_nat (nat (- i)) else show_nat (nat i))"


section \<open>The client and its runtime (game-client.ts)\<close>

text \<open>A JavaScript \<open>Error\<close>: its message and, for a system error, its code.\<close>

record Error =
  code :: "string option"
  message :: string

text \<open>How a promise was settled.\<close>

datatype 'a outcome = Resolved 'a | Rejected Error

text \<open>
  \<open>PendingRequest\<close>: \<open>resolve\<close> and \<open>reject\<close> are the two callbacks of one promise, so the
  entry holds that promise; \<open>timeoutHandle\<close> is the handle \<open>setTimeout\<close> returned.
\<close>

record PendingRequest =
  promise :: nat
  timeoutHandle :: nat

text \<open>What the timeout callback of \<open>sendCommand\<close> captured: the request id, the promise
  and the timeout.\<close>

record timeout_closure =
  t_id :: string
  t_promise :: nat
  t_timeout :: int

text \<open>One \<open>socket.write\<close>: the socket, the request written, and what its callback captured.\<close>

record socket_write =
  w_socket :: nat
  w_request :: GameRequest
  w_promise :: nat
  w_timeoutHandle :: nat

record child_process =
  pid :: nat
  killed :: bool

datatype signal = SIGTERM | SIGKILL

text \<open>The fields of \<open>GameClient\<close>. \<open>pendingRequests\<close> is a JavaScript \<open>Map\<close>: one entry per
  key, in insertion order.\<close>

record GameClient =
  socket :: "nat option"
  state :: ConnectionState
  buffer :: string
  pendingRequests :: "(string \<times> PendingRequest) list"
  gameProcess :: "child_process option"
  config :: Config
  availableCommands :: "CommandInfo list"

text \<open>
  The client together with the runtime around it:
  \<^item> \<open>timers\<close>: the store of \<open>setTimeout\<close> handles; a handle is an index, \<open>Some\<close> while the
    timer is armed, \<open>None\<close> once it fired or was cleared;
  \<^item> \<open>promises\<close>: the store of the promises \<open>sendCommand\<close> returned; \<open>None\<close> while pending,
    and settled once (a later \<open>resolve\<close> or \<open>reject\<close> of a settled promise does nothing);
  \<^item> \<open>written\<close>: every \<open>socket.write\<close>, in order; \<open>dialled\<close>: every dial, as the
    wall-clock reading when it was made and the port;
    \<open>spawned\<close>: every launch (command and project path); \<open>destroyed\<close>: every socket
    destroyed; \<open>signals\<close>: every signal sent to a child;
  \<^item> \<open>clock\<close>: what \<open>Date.now()\<close> returns, the wall clock in milliseconds; it moves on as
    time passes and can be set, forward or back, from outside;
  \<^item> \<open>slept\<close>: every \<open>sleep\<close>, as the wall-clock reading when it was called and its
    argument.
\<close>

record world = GameClient +
  timers :: "timeout_closure option list"
  promises :: "GameResponse outcome option list"
  written :: "socket_write list"
  dialled :: "(int \<times> int) list"
  spawned :: "(string \<times> string) list"
  destroyed :: "nat list"
  signals :: "(nat \<times> signal) list"
  slept :: "(int \<times> rat) list"
  clock :: int

definition getState :: "world \<Rightarrow> ConnectionState" where
  "getState w = state w"

definition getAvailableCommands :: "world \<Rightarrow> CommandInfo list" where
  "getAvailableCommands w = availableCommands w"

definition isConnected :: "world \<Rightarrow> bool" where
  "isConnected w = (state w = Connected \<and> socket w \<noteq> None)"

text \<open>Two worlds with the same configuration, cached command list, clock and logs of
  dials, launches and sleeps.\<close>

abbreviation same_logs :: "world \<Rightarrow> world \<Rightarrow> bool" where
  "same_logs w w' \<equiv>
     config w' = config w \<and> dialled w' = dialled w \<and> spawned w' = spawned w \<and>
     slept w' = slept w \<and> clock w' = clock w \<and> availableCommands w' = availableCommands w"

subsection \<open>Timers and promises\<close>

definition setTimeout :: "timeout_closure \<Rightarrow> world \<Rightarrow> nat \<times> world" where
  "setTimeout c w = (length (timers w), w\<lparr>timers := timers w @ [Some c]\<rparr>)"

definition clearTimeout :: "nat \<Rightarrow> world \<Rightarrow> world" where
  "clearTimeout h w = w\<lparr>timers := (timers w)[h := None]\<rparr>"

definition new_promise :: "world \<Rightarrow> nat \<times> world" where
  "new_promise w = (length (promises w), w\<lparr>promises := promises w @ [None]\<rparr>)"

definition settle :: "nat \<Rightarrow> GameResponse outcome \<Rightarrow> world \<Rightarrow> world" where
  "settle p out w =
     (if p < length (promises w) \<and> promises w ! p = None
      then w\<lparr>promises := (promises w)[p := Some out]\<rparr> else w)"

text \<open>Whether a call is still waiting, and what it completed with.\<close>

definition unsettled :: "nat \<Rightarrow> world \<Rightarrow> bool" where
  "unsettled p w = (p < length (promises w) \<and> promises w ! p = None)"

definition armed :: "nat \<Rightarrow> world \<Rightarrow> bool" where
  "armed h w = (h < length (timers w) \<and> timers w ! h \<noteq> None)"

definition completion :: "nat \<Rightarrow> world \<Rightarrow> GameResponse outcome option" where
  "completion p w = (if p < length (promises w) then promises w ! p else None)"

subsection \<open>Receiving\<close>

datatype decode_error = SyntaxError | ZodError

text \<open>
  The two parsing steps of \<open>handleMessage\<close>. \<open>JSON.parse\<close> is the runtime's: it is the
  parameter \<open>parse\<close>, \<open>None\<close> where it throws.
\<close>

definition decode :: "(string \<Rightarrow> json option) \<Rightarrow> string \<Rightarrow> decode_error + GameResponse" where
  "decode parse line =
     (case parse line of
        None \<Rightarrow> Inl SyntaxError
      | Some parsed \<Rightarrow>
          (case GameResponseSchema parsed of
             None \<Rightarrow> Inl ZodError
           | Some response \<Rightarrow> Inr response))"

text \<open>\<open>handleMessage\<close>: the \<open>catch\<close> logs the error and returns.\<close>

definition handleMessage :: "(string \<Rightarrow> json option) \<Rightarrow> string \<Rightarrow> world \<Rightarrow> world" where
  "handleMessage parse line w =
     (case decode parse line of
        Inl err \<Rightarrow> w
      | Inr response \<Rightarrow>
          (case map_of (pendingRequests w) (id' response) of
             None \<Rightarrow> w
           | Some pending \<Rightarrow>
               let w1 = clearTimeout (timeoutHandle pending) w;
                   w2 = w1\<lparr>pendingRequests := AList.delete (id' response) (pendingRequests w1)\<rparr>
               in settle (promise pending) (Resolved response) w2))"

text \<open>The characters \<open>trim\<close> strips, among the ASCII ones.\<close>

definition isWhitespace :: "char \<Rightarrow> bool" where
  "isWhitespace c = (c \<in> set [CHR 0x09, CHR 0x0A, CHR 0x0B, CHR 0x0C, CHR 0x0D, CHR 0x20])"

lemma buffer_handleMessage: "buffer (handleMessage parse line w) = buffer w"
  by (simp add: handleMessage_def settle_def clearTimeout_def Let_def
      split: sum.splits option.splits)

function processBuffer :: "(string \<Rightarrow> json option) \<Rightarrow> world \<Rightarrow> world" where
  "processBuffer parse w =
     (if CHR 0x0A \<in> set (buffer w) then
        let line = takeWhile (\<lambda>c. c \<noteq> CHR 0x0A) (buffer w);
            w1 = w\<lparr>buffer := drop (length line + 1) (buffer w)\<rparr>;
            w2 = (if list_all isWhitespace line then w1 else handleMessage parse line w1)
        in processBuffer parse w2
      else w)"
  by pat_completeness auto
termination
proof (relation "measure (\<lambda>(parse, w). length (buffer w))")
  show "wf (measure (\<lambda>(parse, w). length (buffer w)))" by simp
next
  fix parse :: "string \<Rightarrow> json option" and w :: world and line w1 w2
  assume nl: "CHR 0x0A \<in> set (buffer w)"
    and w1: "w1 = w\<lparr>buffer := drop (length line + 1) (buffer w)\<rparr>"
    and w2: "w2 = (if list_all isWhitespace line then w1 else handleMessage parse line w1)"
  have "buffer w2 = drop (length line + 1) (buffer w)"
    using w1 w2 by (simp add: buffer_handleMessage)
  moreover have "buffer w \<noteq> []" using nl by auto
  ultimately show "((parse, w2), (parse, w)) \<in> measure (\<lambda>(parse, w). length (buffer w))"
    by simp
qed

declare processBuffer.simps [simp del]

text \<open>\<open>handleDisconnect\<close>: every pending request has its timer cleared and its promise
  rejected, in the table's order; then the table is cleared.\<close>

definition connection_lost :: Error where
  "connection_lost = \<lparr>code = None, message = ''Connection lost during command execution''\<rparr>"

definition reject_pending :: "world \<Rightarrow> string \<times> PendingRequest \<Rightarrow> world" where
  "reject_pending w entry =
     settle (promise (snd entry)) (Rejected connection_lost)
       (clearTimeout (timeoutHandle (snd entry)) w)"

definition handleDisconnect :: "world \<Rightarrow> world" where
  "handleDisconnect w =
     (let w1 = w\<lparr>state := Disconnected, socket := None, buffer := []\<rparr>;
          w2 = foldl reject_pending w1 (pendingRequests w1)
      in w2\<lparr>pendingRequests := []\<rparr>)"

subsection \<open>Sending\<close>

text \<open>
  What an \<open>async\<close> method hands back: a value it returned at once, or the promise the
  caller is left awaiting.
\<close>

datatype 'a async = Returned 'a | Awaiting nat

definition not_connected :: GameResponse where
  "not_connected =
     \<lparr>id' = [], success = False, data = None, image' = None,
      error = Some ''Not connected. Call game_connect first.''\<rparr>"

definition failure :: "string \<Rightarrow> string \<Rightarrow> GameResponse" where
  "failure i msg = \<lparr>id' = i, success = False, data = None, image' = None, error = Some msg\<rparr>"

text \<open>
  \<open>sendCommand\<close>. \<open>uuid\<close> is what \<open>randomUUID()\<close> gives this call. The guard
  \<open>!this.isConnected() || !this.socket\<close> is read once, as the socket of a connected
  client: the branch that sends is the one where both hold, and it writes to that socket.
\<close>

definition sendCommand ::
  "string \<Rightarrow> (string \<times> json) list \<Rightarrow> int option \<Rightarrow> string \<Rightarrow> world \<Rightarrow> GameResponse async \<times> world" where
  "sendCommand cmd arguments timeoutMs uuid w =
     (case (if isConnected w then socket w else None) of
        None \<Rightarrow> (Returned not_connected, w)
      | Some s \<Rightarrow>
          let timeout = or_number timeoutMs (commandTimeoutMs (config w));
              request = \<lparr>req_id = uuid, command = cmd, args = arguments\<rparr>;
              (p, w1) = new_promise w;
              (h, w2) = setTimeout \<lparr>t_id = uuid, t_promise = p, t_timeout = timeout\<rparr> w1;
              w3 = w2\<lparr>pendingRequests :=
                     AList.update uuid \<lparr>promise = p, timeoutHandle = h\<rparr> (pendingRequests w2)\<rparr>;
              w4 = w3\<lparr>written := written w3 @
                     [\<lparr>w_socket = s, w_request = request, w_promise = p, w_timeoutHandle = h\<rparr>]\<rparr>
          in (Awaiting p, w4))"

text \<open>The timeout callback of \<open>sendCommand\<close>, run when timer \<open>h\<close> fires (a timer that is
  not armed does not fire).\<close>

definition fireTimer :: "nat \<Rightarrow> world \<Rightarrow> world" where
  "fireTimer h w =
     (if h < length (timers w) then
        (case timers w ! h of
           None \<Rightarrow> w
         | Some c \<Rightarrow>
             let w1 = w\<lparr>timers := (timers w)[h := None]\<rparr>;
                 w2 = w1\<lparr>pendingRequests := AList.delete (t_id c) (pendingRequests w1)\<rparr>
             in settle (t_promise c)
                  (Resolved (failure (t_id c)
                     (''Command timeout after '' @ show_int (t_timeout c) @ ''ms''))) w2)
      else w)"

text \<open>The callback of the \<open>k\<close>-th \<open>socket.write\<close>, called with \<open>err\<close>.\<close>

definition writeCallback :: "nat \<Rightarrow> string option \<Rightarrow> world \<Rightarrow> world" where
  "writeCallback k err w =
     (case err of
        None \<Rightarrow> w
      | Some msg \<Rightarrow>
          if k < length (written w) then
            let wr = written w ! k;
                w1 = clearTimeout (w_timeoutHandle wr) w;
                w2 = w1\<lparr>pendingRequests :=
                       AList.delete (req_id (w_request wr)) (pendingRequests w1)\<rparr>
            in settle (w_promise wr)
                 (Resolved (failure (req_id (w_request wr)) (''Failed to send command: '' @ msg))) w2
          else w)"

subsection \<open>Events\<close>

text \<open>
  What the event loop can deliver to the client between two of its own statements: a
  chunk of socket data, the socket's close or error, a timer of \<open>sendCommand\<close>, a write
  callback, and the exit or error of the child process (both handlers clear the handle).
\<close>

datatype event =
    SocketData string
  | SocketClose
  | SocketError string
  | TimerFires nat
  | WriteDone nat "string option"
  | ProcessExit "int option"
  | ProcessError string

definition step :: "(string \<Rightarrow> json option) \<Rightarrow> world \<Rightarrow> event \<Rightarrow> world" where
  "step parse w e =
     (case e of
        SocketData chunk \<Rightarrow> processBuffer parse (w\<lparr>buffer := buffer w @ chunk\<rparr>)
      | SocketClose \<Rightarrow> handleDisconnect w
      | SocketError msg \<Rightarrow> handleDisconnect w
      | TimerFires h \<Rightarrow> fireTimer h w
      | WriteDone k err \<Rightarrow> writeCallback k err w
      | ProcessExit c \<Rightarrow> w\<lparr>gameProcess := None\<rparr>
      | ProcessError msg \<Rightarrow> w\<lparr>gameProcess := None\<rparr>)"

definition run :: "(string \<Rightarrow> json option) \<Rightarrow> event list \<Rightarrow> world \<Rightarrow> world" where
  "run parse evs w = foldl (step parse) w evs"

text \<open>
  \<open>sleep(ms)\<close>: the events delivered while the caller waits, then the clock moved on by
  the timer's delay (at least one millisecond, whole milliseconds) and by how late the
  timer ran. The sleep is logged with the clock reading at the call.
\<close>

definition timer_delay :: "rat \<Rightarrow> nat" where
  "timer_delay ms = (if ms < 1 then 1 else nat \<lfloor>ms\<rfloor>)"

definition sleep :: "(string \<Rightarrow> json option) \<Rightarrow> rat \<Rightarrow> event list \<Rightarrow> nat \<Rightarrow> world \<Rightarrow> world" where
  "sleep parse ms during late w =
     (let w1 = run parse during (w\<lparr>slept := slept w @ [(clock w, ms)]\<rparr>)
      in w1\<lparr>clock := clock w1 + int (timer_delay ms) + int late\<rparr>)"

subsection \<open>Killing\<close>

text \<open>\<open>ChildProcess.kill\<close>: the signal is sent and the handle marked \<open>killed\<close>.\<close>

definition kill :: "signal \<Rightarrow> world \<Rightarrow> world" where
  "kill sig w =
     (case gameProcess w of
        None \<Rightarrow> w
      | Some p \<Rightarrow> w\<lparr>gameProcess := Some (p\<lparr>killed := True\<rparr>), signals := signals w @ [(pid p, sig)]\<rparr>)"

text \<open>\<open>killGame\<close>; \<open>during\<close> are the events delivered while it sleeps between the two
  signals (it sleeps only when there is a child process).\<close>

definition killGame :: "(string \<Rightarrow> json option) \<Rightarrow> event list \<Rightarrow> world \<Rightarrow> world" where
  "killGame parse during w =
     (let w1 = (case socket w of
                  None \<Rightarrow> w
                | Some s \<Rightarrow> w\<lparr>socket := None, destroyed := destroyed w @ [s]\<rparr>);
          w2 = (case gameProcess w1 of
                  None \<Rightarrow> w1
                | Some p \<Rightarrow>
                    let wa = kill SIGTERM w1;
                        wb = sleep parse 500 during 0 wa;
                        wc = (case gameProcess wb of
                                None \<Rightarrow> wb
                              | Some q \<Rightarrow> if killed q then wb else kill SIGKILL wb)
                    in wc\<lparr>gameProcess := None\<rparr>)
      in w2\<lparr>state := Disconnected, buffer := [], pendingRequests := []\<rparr>)"

definition shutdown :: "(string \<Rightarrow> json option) \<Rightarrow> event list \<Rightarrow> world \<Rightarrow> world" where
  "shutdown parse during w = killGame parse during w"

subsection \<open>Launching\<close>

text \<open>
  What becomes of a \<open>spawn\<close> within the 100 ms \<open>launchGame\<close> waits: the child runs (with
  this pid), \<open>spawn\<close> throws, the child's \<open>error\<close> event arrives, or its \<open>exit\<close> event
  does (with the exit code, \<open>null\<close> when a signal ended it).
\<close>

datatype launch_result =
    Started nat
  | SpawnThrows Error
  | ErrorEvent string
  | ExitEvent "int option"

definition show_code :: "int option \<Rightarrow> string" where
  "show_code c = (case c of None \<Rightarrow> ''null'' | Some n \<Rightarrow> show_int n)"

text \<open>\<open>launchGame\<close>: the error it rejects with, if any, and the world it leaves.\<close>

definition launchGame :: "string \<Rightarrow> launch_result \<Rightarrow> world \<Rightarrow> Error option \<times> world" where
  "launchGame path r w =
     (let w1 = w\<lparr>spawned := spawned w @ [(godotPath (config w), path)]\<rparr> in
      case r of
        Started n \<Rightarrow>
          (None, w1\<lparr>gameProcess := Some \<lparr>pid = n, killed = False\<rparr>, clock := clock w1 + 100\<rparr>)
      | SpawnThrows err \<Rightarrow> (Some err, w1)
      | ErrorEvent msg \<Rightarrow>
          (Some \<lparr>code = None, message = ''Failed to launch Godot: '' @ msg\<rparr>,
           w1\<lparr>gameProcess := None\<rparr>)
      | ExitEvent c \<Rightarrow>
          if state w1 = Connecting then
            (Some \<lparr>code = None,
                   message = ''Game process exited unexpectedly with code '' @ show_code c\<rparr>,
             w1\<lparr>gameProcess := None\<rparr>)
          else (None, w1\<lparr>gameProcess := None, clock := clock w1 + 100\<rparr>))"

subsection \<open>Fetching the command list\<close>

text \<open>
  Awaiting promise \<open>p\<close>: the events the loop delivers are handled one by one until the
  promise is settled; \<open>None\<close> when they run out first (the caller is never resumed).
\<close>

fun await ::
  "(string \<Rightarrow> json option) \<Rightarrow> nat \<Rightarrow> event list \<Rightarrow> world \<Rightarrow> (GameResponse outcome \<times> world) option" where
  "await parse p [] w =
     (case completion p w of None \<Rightarrow> None | Some out \<Rightarrow> Some (out, w))"
| "await parse p (e # es) w =
     (case completion p w of
        None \<Rightarrow> await parse p es (step parse w e)
      | Some out \<Rightarrow> Some (out, w))"

definition commands_of :: "GameResponse \<Rightarrow> CommandInfo list" where
  "commands_of response =
     (case (if success response then data response else None) of
        None \<Rightarrow> []
      | Some d \<Rightarrow>
          if truthy d then
            (case ListCommandsResponseSchema d of None \<Rightarrow> [] | Some cs \<Rightarrow> cs)
          else [])"

text \<open>\<open>fetchCommands\<close>; \<open>flight\<close> are the events delivered while it awaits the response.\<close>

definition fetchCommands ::
  "(string \<Rightarrow> json option) \<Rightarrow> string \<Rightarrow> event list \<Rightarrow> world \<Rightarrow> (CommandInfo list \<times> world) option" where
  "fetchCommands parse uuid flight w =
     (case sendCommand ''list_commands'' [] (Some 5000) uuid w of
        (Returned response, w1) \<Rightarrow> Some (commands_of response, w1)
      | (Awaiting p, w1) \<Rightarrow>
          (case await parse p flight w1 of
             None \<Rightarrow> None
           | Some (Resolved response, w2) \<Rightarrow> Some (commands_of response, w2)
           | Some (Rejected err, w2) \<Rightarrow> Some ([], w2)))"

subsection \<open>Connecting\<close>

record ConnectOptions =
  o_projectPath :: "string option"
  o_restart :: "bool option"
  o_port :: "int option"
  o_timeoutMs :: "int option"

record ConnectResult =
  connected' :: bool
  commands :: "CommandInfo list option"
  gameVersion :: "string option"
  error' :: "string option"

datatype dial_result = DialOk nat | DialError Error

text \<open>
  What the environment does in one turn of the retry loop: how long the dial takes, how
  far the wall clock is set meanwhile (forward, or back when negative) and how the dial
  ends (the socket, or the error), the id \<open>randomUUID()\<close> gives and the events delivered
  while the command list is awaited, how a launch goes, and the events delivered during
  the backoff sleep with how late its timer runs.
\<close>

record attempt =
  dialMs :: nat
  clockStep :: int
  dial :: dial_result
  uuid :: string
  flight :: "event list"
  launch :: launch_result
  sleepEvents :: "event list"
  sleepLate :: nat

text \<open>
  \<open>Math.pow(2, k)\<close> for an integer \<open>k\<close>, in double precision: the exact power down to the
  smallest subnormal \<open>2^-1074\<close>, and \<open>0\<close> below it. (From \<open>k = 1024\<close> on the double is
  \<open>Infinity\<close>; the wait below is \<open>1000\<close> then, as with the exact power.) Then the backoff wait
  of line 169, for an elapsed time in whole milliseconds; the product by 100 and the
  division by 1000 under \<open>Math.floor\<close> are exact in double precision for an elapsed time
  below \<open>8 * 10^15\<close> ms in absolute value.
\<close>

definition pow2 :: "int \<Rightarrow> rat" where
  "pow2 k = (if k < - 1074 then 0 else if 0 \<le> k then 2 ^ nat k else 1 / 2 ^ nat (- k))"

definition waitTime :: "int \<Rightarrow> rat" where
  "waitTime elapsed = min (100 * pow2 (elapsed div 1000)) 1000"


definition timeout_message :: "int \<Rightarrow> string" where
  "timeout_message timeoutMs = ''Connection timeout after '' @ show_int timeoutMs @ ''ms''"

text \<open>The code after the loop: \<open>lastError?.message || `Connection timeout after ...`\<close>.\<close>

definition give_up :: "int \<Rightarrow> Error option \<Rightarrow> world \<Rightarrow> ConnectResult \<times> world" where
  "give_up timeoutMs lastError w =
     (\<lparr>connected' = False, commands = None, gameVersion = None,
       error' = or_string (map_option message lastError) (Some (timeout_message timeoutMs))\<rparr>,
      w\<lparr>state := Disconnected\<rparr>)"

text \<open>
  \<open>tryConnect\<close>: the dial is logged and takes its time, during which the wall clock may be
  set; on success the socket is kept, otherwise the error is what the promise rejects
  with.
\<close>

definition tryConnect :: "int \<Rightarrow> attempt \<Rightarrow> world \<Rightarrow> Error option \<times> world" where
  "tryConnect prt a w =
     (let w0 = w\<lparr>dialled := dialled w @ [(clock w, prt)],
                 clock := clock w + int (dialMs a) + clockStep a\<rparr>
      in case dial a of
           DialOk s \<Rightarrow> (None, w0\<lparr>socket := Some s\<rparr>)
         | DialError err \<Rightarrow> (Some err, w0))"

text \<open>
  The retry loop of \<open>connect\<close> (lines 139 to 176), entered for turn \<open>i\<close> with the last error
  seen; \<open>env i\<close> is what the environment does in that turn. \<open>None\<close> when the call never
  returns: it is never resumed from awaiting the command list, or the wall clock is set
  back again and again and the loop never sees its budget spent.
\<close>

partial_function (option) connect_loop ::
  "(string \<Rightarrow> json option) \<Rightarrow> (nat \<Rightarrow> attempt) \<Rightarrow> string \<Rightarrow> int \<Rightarrow> int \<Rightarrow> int \<Rightarrow> nat \<Rightarrow>
   Error option \<Rightarrow> world \<Rightarrow> (ConnectResult \<times> world) option" where
  "connect_loop parse env path prt timeoutMs startTime i lastError w =
     (if clock w - startTime < timeoutMs then
        (case tryConnect prt (env i) w of
           (None, w0) \<Rightarrow>
             (case fetchCommands parse (uuid (env i)) (flight (env i)) w0 of
                None \<Rightarrow> None
              | Some (cmds, w1) \<Rightarrow>
                  Some (\<lparr>connected' = True, commands = Some cmds, gameVersion = None,
                         error' = None\<rparr>,
                        w1\<lparr>availableCommands := cmds, state := Connected\<rparr>))
         | (Some err, w0) \<Rightarrow>
             if code err = Some ''ECONNREFUSED'' then
               (case (if gameProcess w0 = None then launchGame path (launch (env i)) w0
                      else (None, w0)) of
                  (Some launchErr, w1) \<Rightarrow>
                    Some (\<lparr>connected' = False, commands = None, gameVersion = None,
                           error' = Some (''Failed to launch game: '' @ message launchErr)\<rparr>,
                          w1)
                | (None, w1) \<Rightarrow>
                    connect_loop parse env path prt timeoutMs startTime (i + 1) (Some err)
                      (sleep parse (waitTime (clock w1 - startTime)) (sleepEvents (env i))
                         (sleepLate (env i)) w1))
             else Some (give_up timeoutMs (Some err) w0))
      else Some (give_up timeoutMs lastError w))"

text \<open>
  \<open>connect\<close>. \<open>killEvents\<close> are the events delivered while a restart's \<open>killGame\<close> sleeps.
\<close>

definition connect ::
  "(string \<Rightarrow> json option) \<Rightarrow> ConnectOptions \<Rightarrow> event list \<Rightarrow> (nat \<Rightarrow> attempt) \<Rightarrow> world \<Rightarrow>
   (ConnectResult \<times> world) option" where
  "connect parse options killEvents env w =
     (let path = or_string (o_projectPath options) (projectPath (config w));
          prt = or_number (o_port options) (port (config w));
          timeoutMs = or_number (o_timeoutMs options) (connectTimeoutMs (config w))
      in case truthy_string path of
           None \<Rightarrow>
             Some (\<lparr>connected' = False, commands = None, gameVersion = None,
                    error' = Some ''No project path specified. Set GAME_PROJECT_PATH or provide project_path parameter.''\<rparr>,
                   w)
         | Some pth \<Rightarrow>
             let w1 = (if o_restart options = Some True then killGame parse killEvents w else w)
             in if isConnected w1 then
                  Some (\<lparr>connected' = True, commands = Some (availableCommands w1),
                         gameVersion = None, error' = None\<rparr>, w1)
                else connect_loop parse env pth prt timeoutMs (clock w1) 0 None
                       (w1\<lparr>state := Connecting\<rparr>))"

section \<open>Example configurations\<close>

text \<open>The constructor: a disconnected client, and a runtime in which nothing happened yet.\<close>

definition new_client :: "Config \<Rightarrow> world" where
  "new_client cfg =
     \<lparr>socket = None, state = Disconnected, buffer = [], pendingRequests = [],
      gameProcess = None, config = cfg, availableCommands = [],
      timers = [], promises = [], written = [], dialled = [], spawned = [],
      destroyed = [], signals = [], slept = [], clock = 0\<rparr>"

text \<open>The defaults of index.ts, with and without a project path.\<close>

definition default_config :: Config where
  "default_config =
     \<lparr>projectPath = Some ''/game'', port = 6789, godotPath = ''godot'',
      connectTimeoutMs = 5000, commandTimeoutMs = 10000\<rparr>"

definition pathless_config :: Config where
  "pathless_config = default_config\<lparr>projectPath := None\<rparr>"

definition no_options :: ConnectOptions where
  "no_options = \<lparr>o_projectPath = None, o_restart = None, o_port = None, o_timeoutMs = None\<rparr>"

text \<open>A client connected on socket 7, with two cached commands.\<close>

definition screenshot_info :: CommandInfo where
  "screenshot_info =
     \<lparr>name = ''screenshot'', description = ''Capture the game viewport'', cmd_args = None\<rparr>"

definition player_info :: CommandInfo where
  "player_info =
     \<lparr>name = ''get_player_state'', description = ''Get player position and health'',
      cmd_args = Some []\<rparr>"

definition connected_client :: "Config \<Rightarrow> world" where
  "connected_client cfg =
     (new_client cfg)\<lparr>socket := Some 7, state := Connected,
        availableCommands := [screenshot_info, player_info]\<rparr>"

text \<open>
  A target process that answers \<open>list_commands\<close> with the two commands: the response
  object for request \<open>i\<close>, and a \<open>JSON.parse\<close> that reads the line \<open>reply\<close> as that object.
\<close>

definition two_commands_reply :: "string \<Rightarrow> json" where
  "two_commands_reply i =
     JObj [(''id'', JStr i), (''success'', JBool True),
           (''data'', JObj [(''commands'', JArr
              [JObj [(''name'', JStr ''screenshot''),
                     (''description'', JStr ''Capture the game viewport'')],
               JObj [(''name'', JStr ''get_player_state''),
                     (''description'', JStr ''Get player position and health''),
                     (''args'', JObj [])]])])]"

definition parse_reply :: "string \<Rightarrow> string \<Rightarrow> json option" where
  "parse_reply i line = (if line = ''reply'' then Some (two_commands_reply i) else None)"

text \<open>
  An environment in which every dial is answered at once by a target process that is
  listening (socket 7) and answers the command list.
\<close>

definition listening :: "nat \<Rightarrow> attempt" where
  "listening i =
     \<lparr>dialMs = 3, clockStep = 0, dial = DialOk 7, uuid = ''u1'',
      flight = [SocketData (''reply'' @ [CHR 0x0A])],
      launch = Started 42, sleepEvents = [], sleepLate = 0\<rparr>"

text \<open>
  The scenario of the specification: the first dial is refused, the launch succeeds, and
  from the second dial on the target process is listening.
\<close>

definition refused :: Error where
  "refused = \<lparr>code = Some ''ECONNREFUSED'', message = ''connect ECONNREFUSED 127.0.0.1:6789''\<rparr>"

definition launch_then_listen :: "nat \<Rightarrow> attempt" where
  "launch_then_listen i =
     (if i = 0 then (listening 0)\<lparr>dial := DialError refused\<rparr> else listening i)"

text \<open>A connected client with one call in flight, and with two.\<close>

definition one_pending :: world where
  "one_pending = snd (sendCommand ''screenshot'' [] None ''a'' (connected_client default_config))"

definition two_pending :: world where
  "two_pending = snd (sendCommand ''get_player_state'' [] (Some 2000) ''b'' one_pending)"

text \<open>The same client after it launched the target process itself (pid 42).\<close>

definition launched_client :: "Config \<Rightarrow> world" where
  "launched_client cfg = (connected_client cfg)\<lparr>gameProcess := Some \<lparr>pid = 42, killed = False\<rparr>\<rparr>"


text \<open>
  The launched client while its \<open>killGame\<close> waits between the two signals: the socket is
  destroyed and forgotten, the child has been sent \<open>SIGTERM\<close>, and the state is still
  \<open>connected\<close>.
\<close>

definition mid_kill :: "Config \<Rightarrow> world" where
  "mid_kill cfg = kill SIGTERM ((launched_client cfg)\<lparr>socket := None, destroyed := [7]\<rparr>)"

text \<open>A configuration away from the defaults, and options that are all falsy.\<close>

definition custom_config :: Config where
  "custom_config =
     \<lparr>projectPath = Some ''/projects/demo'', port = 7001, godotPath = ''godot4'',
      connectTimeoutMs = 250, commandTimeoutMs = 777\<rparr>"

definition falsy_options :: ConnectOptions where
  "falsy_options =
     \<lparr>o_projectPath = Some [], o_restart = None, o_port = Some 0, o_timeoutMs = Some 0\<rparr>"

text \<open>An environment in which every dial to port 7001 is refused after 40 ms.\<close>

definition busy :: "nat \<Rightarrow> attempt" where
  "busy i =
     (listening i)\<lparr>dialMs := 40,
        dial := DialError \<lparr>code = Some ''ECONNREFUSED'',
                           message = ''connect ECONNREFUSED 127.0.0.1:7001''\<rparr>\<rparr>"


section \<open>Facts about the examples\<close>

lemma show_int_10000: "show_int 10000 = ''10000''"
  by (simp add: show_int_def show_nat.simps digit_def)


lemma sendCommand_connected_client:
  "sendCommand ''screenshot'' [] None ''a'' (connected_client default_config) =
     (Awaiting 0,
      (connected_client default_config)
        \<lparr>pendingRequests := [(''a'', \<lparr>promise = 0, timeoutHandle = 0\<rparr>)],
         timers := [Some \<lparr>t_id = ''a'', t_promise = 0, t_timeout = 10000\<rparr>],
         promises := [None],
         written := [\<lparr>w_socket = 7,
                      w_request = \<lparr>req_id = ''a'', command = ''screenshot'', args = []\<rparr>,
                      w_promise = 0, w_timeoutHandle = 0\<rparr>]\<rparr>)"
  by (simp add: sendCommand_def isConnected_def connected_client_def new_client_def
      default_config_def or_number_def new_promise_def setTimeout_def)

lemma one_pending_eq:
  "one_pending =
     (connected_client default_config)
       \<lparr>pendingRequests := [(''a'', \<lparr>promise = 0, timeoutHandle = 0\<rparr>)],
        timers := [Some \<lparr>t_id = ''a'', t_promise = 0, t_timeout = 10000\<rparr>],
        promises := [None],
        written := [\<lparr>w_socket = 7,
                     w_request = \<lparr>req_id = ''a'', command = ''screenshot'', args = []\<rparr>,
                     w_promise = 0, w_timeoutHandle = 0\<rparr>]\<rparr>"
  by (simp add: one_pending_def sendCommand_connected_client)

lemma two_pending_eq:
  "two_pending =
     (connected_client default_config)
       \<lparr>pendingRequests := [(''a'', \<lparr>promise = 0, timeoutHandle = 0\<rparr>),
                            (''b'', \<lparr>promise = 1, timeoutHandle = 1\<rparr>)],
        timers := [Some \<lparr>t_id = ''a'', t_promise = 0, t_timeout = 10000\<rparr>,
                   Some \<lparr>t_id = ''b'', t_promise = 1, t_timeout = 2000\<rparr>],
        promises := [None, None],
        written := [\<lparr>w_socket = 7,
                     w_request = \<lparr>req_id = ''a'', command = ''screenshot'', args = []\<rparr>,
                     w_promise = 0, w_timeoutHandle = 0\<rparr>,
                    \<lparr>w_socket = 7,
                     w_request = \<lparr>req_id = ''b'', command = ''get_player_state'', args = []\<rparr>,
                     w_promise = 1, w_timeoutHandle = 1\<rparr>]\<rparr>"
  by (simp add: two_pending_def one_pending_eq sendCommand_def isConnected_def
      connected_client_def new_client_def default_config_def or_number_def new_promise_def
      setTimeout_def)

section \<open>Sending a command\<close>

text \<open>
  Claim C7. A \<open>sendCommand\<close> made while the state is not \<open>connected\<close> returns at once,
  as a value and not as an exception, the failure response whose message is
  "Not connected. Call game_connect first."; it leaves the client and its runtime as they
  were, so nothing is registered in the pending table, no timer is armed and nothing is
  written.
\<close>

theorem sendCommand_not_connected:
  assumes "state w \<noteq> Connected"
  shows "sendCommand cmd arguments timeoutMs uid w =
           (Returned \<lparr>id' = [], success = False, data = None, image' = None,
                      error = Some ''Not connected. Call game_connect first.''\<rparr>, w)"
  using assms by (simp add: sendCommand_def isConnected_def not_connected_def)

theorem sendCommand_not_connected_witness:
  "state (new_client default_config) \<noteq> Connected \<and>
   sendCommand ''screenshot'' [] None ''a'' (new_client default_config) =
     (Returned \<lparr>id' = [], success = False, data = None, image' = None,
                error = Some ''Not connected. Call game_connect first.''\<rparr>,
      new_client default_config)"
proof -
  have h: "state (new_client default_config) \<noteq> Connected"
    by (simp add: new_client_def)
  show ?thesis using h sendCommand_not_connected [OF h] by simp
qed



section \<open>Receiving a line\<close>

text \<open>
  Claim C9. A received line that fails decoding (\<open>JSON.parse\<close> throws, or the parsed value
  lacks a required field or has one of the wrong type), or that decodes to a response
  whose identifier has no entry in the pending table, is dropped: \<open>handleMessage\<close> returns
  normally and leaves the client and its runtime exactly as they were, so every pending
  entry keeps its promise and its armed timer and still completes as it otherwise would.
\<close>

theorem handleMessage_drops:
  assumes "(\<exists>err. decode parse line = Inl err) \<or>
           (\<exists>response. decode parse line = Inr response \<and>
                         map_of (pendingRequests w) (id' response) = None)"
  shows "handleMessage parse line w = w"
  using assms by (auto simp: handleMessage_def)

theorem handleMessage_drops_witness:
  "decode (parse_reply ''zzz'') ''{broken'' = Inl SyntaxError \<and>
   handleMessage (parse_reply ''zzz'') ''{broken'' two_pending = two_pending \<and>
   decode (\<lambda>line. Some (JObj [(''id'', JNum 5), (''success'', JBool True)])) ''{}'' = Inl ZodError \<and>
   handleMessage (\<lambda>line. Some (JObj [(''id'', JNum 5), (''success'', JBool True)])) ''{}''
     two_pending = two_pending \<and>
   (case decode (parse_reply ''zzz'') ''reply'' of
      Inl err \<Rightarrow> None | Inr response \<Rightarrow> Some (id' response)) = Some ''zzz'' \<and>
   map_of (pendingRequests two_pending) ''zzz'' = None \<and>
   handleMessage (parse_reply ''zzz'') ''reply'' two_pending = two_pending \<and>
   map_of (pendingRequests two_pending) ''a'' = Some \<lparr>promise = 0, timeoutHandle = 0\<rparr> \<and>
   armed 0 two_pending \<and> unsettled 0 two_pending"
proof -
  let ?bad = "\<lambda>line :: string. Some (JObj [(''id'', JNum 5), (''success'', JBool True)])"
  have d1: "decode (parse_reply ''zzz'') ''{broken'' = Inl SyntaxError"
    by (simp add: decode_def parse_reply_def)
  have d2: "decode ?bad ''{}'' = Inl ZodError"
    by (simp add: decode_def GameResponseSchema_def z_required_def)
  obtain r where d3: "decode (parse_reply ''zzz'') ''reply'' = Inr r" and r: "id' r = ''zzz''"
    by (simp add: decode_def parse_reply_def two_commands_reply_def GameResponseSchema_def
        z_required_def z_optional_def)
  have absent: "map_of (pendingRequests two_pending) ''zzz'' = None"
    by (simp add: two_pending_eq)
  have h1: "(\<exists>err. decode (parse_reply ''zzz'') ''{broken'' = Inl err) \<or>
           (\<exists>response. decode (parse_reply ''zzz'') ''{broken'' = Inr response \<and>
                         map_of (pendingRequests two_pending) (id' response) = None)"
    using d1 by simp
  have h2: "(\<exists>err. decode ?bad ''{}'' = Inl err) \<or>
           (\<exists>response. decode ?bad ''{}'' = Inr response \<and>
                         map_of (pendingRequests two_pending) (id' response) = None)"
    using d2 by simp
  have h3: "(\<exists>err. decode (parse_reply ''zzz'') ''reply'' = Inl err) \<or>
           (\<exists>response. decode (parse_reply ''zzz'') ''reply'' = Inr response \<and>
                         map_of (pendingRequests two_pending) (id' response) = None)"
    using d3 r absent by simp
  have rest: "map_of (pendingRequests two_pending) ''a'' = Some \<lparr>promise = 0, timeoutHandle = 0\<rparr> \<and>
     armed 0 two_pending \<and> unsettled 0 two_pending"
    by (simp add: two_pending_eq armed_def unsettled_def)
  show ?thesis
    using handleMessage_drops [OF h1] handleMessage_drops [OF h2] handleMessage_drops [OF h3]
      d1 d2 d3 r absent rest
    by simp
qed

section \<open>Losing the connection\<close>

text \<open>What rejecting one pending request, and then all of them, does to a promise and to a
  timer.\<close>

lemma completion_reject_pending:
  "completion p (reject_pending w e) =
     (if unsettled p w \<and> p = promise (snd e) then Some (Rejected connection_lost)
      else completion p w)"
  by (auto simp: reject_pending_def settle_def clearTimeout_def completion_def unsettled_def
      nth_list_update)

lemma unsettled_reject_pending:
  "unsettled p (reject_pending w e) = (unsettled p w \<and> p \<noteq> promise (snd e))"
  by (auto simp: reject_pending_def settle_def clearTimeout_def unsettled_def nth_list_update)

lemma armed_reject_pending:
  "armed h (reject_pending w e) = (armed h w \<and> h \<noteq> timeoutHandle (snd e))"
  by (cases "h = timeoutHandle (snd e)")
    (auto simp: reject_pending_def settle_def clearTimeout_def armed_def)

lemma completion_reject_all_settled:
  "completion p w = Some x \<Longrightarrow> completion p (foldl reject_pending w es) = Some x"
proof (induction es arbitrary: w)
  case Nil
  then show ?case by simp
next
  case (Cons e es)
  have "\<not> unsettled p w"
    using Cons.prems by (auto simp: unsettled_def completion_def)
  then have "completion p (reject_pending w e) = Some x"
    using Cons.prems by (simp add: completion_reject_pending)
  then show ?case using Cons.IH by simp
qed

lemma completion_reject_all:
  "unsettled p w \<Longrightarrow> p \<in> (\<lambda>e. promise (snd e)) ` set es \<Longrightarrow>
   completion p (foldl reject_pending w es) = Some (Rejected connection_lost)"
proof (induction es arbitrary: w)
  case Nil
  then show ?case by simp
next
  case (Cons e es)
  show ?case
  proof (cases "p = promise (snd e)")
    case True
    then have "completion p (reject_pending w e) = Some (Rejected connection_lost)"
      using Cons.prems(1) by (simp add: completion_reject_pending)
    then show ?thesis by (simp add: completion_reject_all_settled)
  next
    case False
    then have "unsettled p (reject_pending w e)" and "p \<in> (\<lambda>e. promise (snd e)) ` set es"
      using Cons.prems by (auto simp: unsettled_reject_pending)
    then show ?thesis using Cons.IH by simp
  qed
qed

lemma not_armed_reject_all:
  "\<not> armed h w \<Longrightarrow> \<not> armed h (foldl reject_pending w es)"
  by (induction es arbitrary: w) (simp_all add: armed_reject_pending)

lemma disarmed_reject_all:
  "h \<in> (\<lambda>e. timeoutHandle (snd e)) ` set es \<Longrightarrow> \<not> armed h (foldl reject_pending w es)"
proof (induction es arbitrary: w)
  case Nil
  then show ?case by simp
next
  case (Cons e es)
  show ?case
  proof (cases "h = timeoutHandle (snd e)")
    case True
    then have "\<not> armed h (reject_pending w e)" by (simp add: armed_reject_pending)
    then show ?thesis by (simp add: not_armed_reject_all)
  next
    case False
    then show ?thesis using Cons by auto
  qed
qed

lemma frame_reject_all:
  "state (foldl reject_pending w es) = state w \<and>
   socket (foldl reject_pending w es) = socket w \<and>
   buffer (foldl reject_pending w es) = buffer w \<and>
   written (foldl reject_pending w es) = written w"
  by (induction es arbitrary: w) (simp_all add: reject_pending_def settle_def clearTimeout_def)

text \<open>
  Claim C2, as the code has it. On a socket close or error, every pending call that is
  still waiting completes, and completes by rejection: its promise is rejected with the
  error "Connection lost during command execution", which the awaiting caller receives as
  a thrown exception, not as a response with the success flag false. Its timer is
  cancelled, the pending table is empty afterwards, and the client is disconnected with no
  socket and an empty buffer.
\<close>

theorem handleDisconnect_rejects_every_pending:
  assumes "(uid, pending) \<in> set (pendingRequests w)"
    and "unsettled (promise pending) w"
  shows "completion (promise pending) (handleDisconnect w) =
           Some (Rejected \<lparr>code = None, message = ''Connection lost during command execution''\<rparr>) \<and>
         \<not> armed (timeoutHandle pending) (handleDisconnect w) \<and>
         pendingRequests (handleDisconnect w) = [] \<and>
         state (handleDisconnect w) = Disconnected \<and>
         socket (handleDisconnect w) = None \<and>
         buffer (handleDisconnect w) = []"
proof -
  let ?w1 = "w\<lparr>state := Disconnected, socket := None, buffer := []\<rparr>"
  let ?w2 = "foldl reject_pending ?w1 (pendingRequests w)"
  have hd: "handleDisconnect w = ?w2\<lparr>pendingRequests := []\<rparr>"
    by (simp add: handleDisconnect_def Let_def)
  have p: "promise pending \<in> (\<lambda>e. promise (snd e)) ` set (pendingRequests w)"
    and h: "timeoutHandle pending \<in> (\<lambda>e. timeoutHandle (snd e)) ` set (pendingRequests w)"
    using assms(1) by force+
  have u: "unsettled (promise pending) ?w1" using assms(2) by (simp add: unsettled_def)
  have c: "completion (promise pending) ?w2 = Some (Rejected connection_lost)"
    by (rule completion_reject_all [OF u p])
  have a: "\<not> armed (timeoutHandle pending) ?w2"
    by (rule disarmed_reject_all [OF h])
  have c': "completion (promise pending) (handleDisconnect w) = completion (promise pending) ?w2"
    by (simp add: hd completion_def)
  have a': "armed (timeoutHandle pending) (handleDisconnect w) = armed (timeoutHandle pending) ?w2"
    by (simp add: hd armed_def)
  have f: "state (handleDisconnect w) = Disconnected \<and> socket (handleDisconnect w) = None \<and>
      buffer (handleDisconnect w) = [] \<and> pendingRequests (handleDisconnect w) = []"
    using frame_reject_all [of ?w1 "pendingRequests w"] by (simp add: hd)
  show ?thesis using c a f by (simp add: c' a' connection_lost_def)
qed

theorem handleDisconnect_rejects_every_pending_witness:
  "(''b'', \<lparr>promise = 1, timeoutHandle = 1\<rparr>) \<in> set (pendingRequests two_pending) \<and>
   unsettled 1 two_pending \<and> armed 1 two_pending \<and>
   completion 1 (handleDisconnect two_pending) =
     Some (Rejected \<lparr>code = None, message = ''Connection lost during command execution''\<rparr>) \<and>
   \<not> armed 1 (handleDisconnect two_pending) \<and>
   pendingRequests (handleDisconnect two_pending) = []"
proof -
  have e: "(''b'', \<lparr>promise = 1, timeoutHandle = 1\<rparr>) \<in> set (pendingRequests two_pending)"
    by (simp add: two_pending_eq)
  have u: "unsettled (promise \<lparr>promise = 1, timeoutHandle = 1\<rparr>) two_pending"
    by (simp add: two_pending_eq unsettled_def)
  have a: "armed 1 two_pending" by (simp add: two_pending_eq armed_def)
  show ?thesis
    using handleDisconnect_rejects_every_pending [OF e u] e u a by simp
qed

text \<open>
  The claim as stated fails: with one call in flight, the disconnect completes it with a
  rejection, not with the failure response the other paths (timeout, write failure)
  resolve with.
\<close>

theorem handleDisconnect_throws:
  "unsettled 0 one_pending \<and>
   map_of (pendingRequests one_pending) ''a'' = Some \<lparr>promise = 0, timeoutHandle = 0\<rparr> \<and>
   completion 0 (handleDisconnect one_pending) =
     Some (Rejected \<lparr>code = None, message = ''Connection lost during command execution''\<rparr>) \<and>
   completion 0 (handleDisconnect one_pending) \<noteq>
     Some (Resolved \<lparr>id' = ''a'', success = False, data = None, image' = None,
                     error = Some ''Connection lost during command execution''\<rparr>)"
  by (simp add: one_pending_eq handleDisconnect_def reject_pending_def settle_def
      clearTimeout_def completion_def unsettled_def connection_lost_def Let_def)

section \<open>What the handlers leave alone\<close>

text \<open>
  An invariant rule for the framing loop; then what the event handlers, a sleep, a launch,
  a dial and \<open>killGame\<close> leave alone. None of them touches the configuration or writes to
  the socket, none makes the state \<open>connected\<close>, and each of the logs is added to by one
  operation only.
\<close>

lemma processBuffer_invariant:
  assumes "P w"
    and "\<And>line w. P w \<Longrightarrow> P (handleMessage parse line w)"
    and "\<And>b w. P w \<Longrightarrow> P (w\<lparr>buffer := b\<rparr>)"
  shows "P (processBuffer parse w)"
  using assms
proof (induction parse w rule: processBuffer.induct)
  case (1 parse w)
  show ?case
  proof (cases "CHR 0x0A \<in> set (buffer w)")
    case True
    define line where "line = takeWhile (\<lambda>c. c \<noteq> CHR 0x0A) (buffer w)"
    define w1 where "w1 = w\<lparr>buffer := drop (length line + 1) (buffer w)\<rparr>"
    define w2 where "w2 = (if list_all isWhitespace line then w1 else handleMessage parse line w1)"
    have unfold: "processBuffer parse w = processBuffer parse w2"
      using True by (subst processBuffer.simps) (simp add: Let_def line_def w1_def w2_def)
    have "P w1" unfolding w1_def by (rule "1.prems"(3)) (rule "1.prems"(1))
    then have "P w2" unfolding w2_def using "1.prems"(2) by simp
    then have "P (processBuffer parse w2)"
      using "1.IH" [OF True line_def w1_def w2_def] "1.prems"(2,3) by blast
    then show ?thesis using unfold by simp
  next
    case False
    then show ?thesis using "1.prems"(1) by (subst processBuffer.simps) simp
  qed
qed

lemma handleMessage_frame:
  "same_logs w (handleMessage parse line w) \<and>
   written (handleMessage parse line w) = written w \<and>
   state (handleMessage parse line w) = state w"
  by (simp add: handleMessage_def settle_def clearTimeout_def Let_def
      split: sum.splits option.splits)

lemma processBuffer_frame:
  "same_logs w (processBuffer parse w) \<and>
   written (processBuffer parse w) = written w \<and>
   state (processBuffer parse w) = state w"
  by (rule processBuffer_invariant
      [where P = "\<lambda>v. same_logs w v \<and> written v = written w \<and> state v = state w"])
    (simp_all add: handleMessage_frame)

lemma reject_all_logs: "same_logs w (foldl reject_pending w es)"
  by (induction es arbitrary: w) (simp_all add: reject_pending_def settle_def clearTimeout_def)

lemma step_frame:
  "same_logs w (step parse w e) \<and> written (step parse w e) = written w"
  by (cases e)
    (simp_all add: step_def processBuffer_frame handleDisconnect_def Let_def reject_all_logs
      frame_reject_all fireTimer_def writeCallback_def settle_def clearTimeout_def
      split: option.splits)

lemma state_step: "state w \<noteq> Connected \<Longrightarrow> state (step parse w e) \<noteq> Connected"
  by (cases e)
    (simp_all add: step_def processBuffer_frame handleDisconnect_def Let_def frame_reject_all
      fireTimer_def writeCallback_def settle_def clearTimeout_def split: option.splits)

lemma run_frame:
  "same_logs w (run parse evs w) \<and> written (run parse evs w) = written w"
  unfolding run_def
proof (induction evs arbitrary: w)
  case Nil
  show ?case by simp
next
  case (Cons e evs)
  show ?case using Cons [of "step parse w e"] step_frame [of parse w e] by simp
qed

lemma state_run: "state w \<noteq> Connected \<Longrightarrow> state (run parse evs w) \<noteq> Connected"
  unfolding run_def by (induction evs arbitrary: w) (simp_all add: state_step)

lemma sleep_frame:
  "config (sleep parse ms during late w) = config w"
  "written (sleep parse ms during late w) = written w"
  "dialled (sleep parse ms during late w) = dialled w"
  "spawned (sleep parse ms during late w) = spawned w"
  "availableCommands (sleep parse ms during late w) = availableCommands w"
  "slept (sleep parse ms during late w) = slept w @ [(clock w, ms)]"
  "state w \<noteq> Connected \<Longrightarrow> state (sleep parse ms during late w) \<noteq> Connected"
  using run_frame [of parse during "w\<lparr>slept := slept w @ [(clock w, ms)]\<rparr>"]
    state_run [of "w\<lparr>slept := slept w @ [(clock w, ms)]\<rparr>" parse during]
  by (simp_all add: sleep_def Let_def)

lemma launchGame_frame:
  "config (snd (launchGame path r w)) = config w"
  "written (snd (launchGame path r w)) = written w"
  "dialled (snd (launchGame path r w)) = dialled w"
  "slept (snd (launchGame path r w)) = slept w"
  "availableCommands (snd (launchGame path r w)) = availableCommands w"
  "state (snd (launchGame path r w)) = state w"
  "spawned (snd (launchGame path r w)) = spawned w @ [(godotPath (config w), path)]"
  by (cases r; simp add: launchGame_def Let_def)+

lemma killGame_frame:
  "config (killGame parse during w) = config w"
  "written (killGame parse during w) = written w"
  "dialled (killGame parse during w) = dialled w"
  "spawned (killGame parse during w) = spawned w"
  "state (killGame parse during w) = Disconnected"
  by (simp_all add: killGame_def kill_def sleep_frame Let_def split: option.splits)

lemma tryConnect_frame:
  "config (snd (tryConnect prt a w)) = config w"
  "written (snd (tryConnect prt a w)) = written w"
  "dialled (snd (tryConnect prt a w)) = dialled w @ [(clock w, prt)]"
  "spawned (snd (tryConnect prt a w)) = spawned w"
  "slept (snd (tryConnect prt a w)) = slept w"
  "availableCommands (snd (tryConnect prt a w)) = availableCommands w"
  "state (snd (tryConnect prt a w)) = state w"
  "gameProcess (snd (tryConnect prt a w)) = gameProcess w"
  by (simp_all add: tryConnect_def Let_def split: dial_result.splits)

lemma await_frame:
  "await parse p evs w = Some (out, w') \<Longrightarrow> same_logs w w'"
proof (induction evs arbitrary: w)
  case Nil
  then show ?case by (auto split: option.splits)
next
  case (Cons e evs)
  show ?case
  proof (cases "completion p w")
    case None
    then have "await parse p evs (step parse w e) = Some (out, w')" using Cons.prems by simp
    from Cons.IH [OF this] step_frame [of parse w e] show ?thesis by simp
  next
    case (Some a)
    then show ?thesis using Cons.prems by simp
  qed
qed

lemma fetchCommands_frame:
  assumes "fetchCommands parse uid fl w = Some (cs, w')"
  shows "same_logs w w'"
proof (cases "sendCommand ''list_commands'' [] (Some 5000) uid w")
  case (Pair r w1)
  have l: "same_logs w w1"
    using Pair
    by (auto simp: sendCommand_def new_promise_def setTimeout_def Let_def split: option.splits)
  show ?thesis
  proof (cases r)
    case (Returned response)
    then show ?thesis using assms Pair l by (simp add: fetchCommands_def)
  next
    case (Awaiting p)
    then obtain out where "await parse p fl w1 = Some (out, w')"
      using assms Pair
      by (auto simp: fetchCommands_def split: option.splits prod.splits outcome.splits)
    from await_frame [OF this] l show ?thesis by simp
  qed
qed

lemma fetchCommands_not_connected:
  "state w \<noteq> Connected \<Longrightarrow> fetchCommands parse uid fl w = Some ([], w)"
  by (simp add: fetchCommands_def sendCommand_def isConnected_def commands_of_def
      not_connected_def)

text \<open>Induction over the turns of a retry loop that returns.\<close>

lemma connect_loop_induct [consumes 1, case_names stop connected failed launch_failed retry]:
  assumes "connect_loop parse env path prt timeoutMs startTime i lastError w = Some res"
    and stop: "\<And>i lastError w.
      \<not> clock w - startTime < timeoutMs \<Longrightarrow> P i lastError w (give_up timeoutMs lastError w)"
    and connected: "\<And>i lastError w w0 cmds w1.
      clock w - startTime < timeoutMs \<Longrightarrow> tryConnect prt (env i) w = (None, w0) \<Longrightarrow>
      fetchCommands parse (uuid (env i)) (flight (env i)) w0 = Some (cmds, w1) \<Longrightarrow>
      P i lastError w
        (\<lparr>connected' = True, commands = Some cmds, gameVersion = None, error' = None\<rparr>,
         w1\<lparr>availableCommands := cmds, state := Connected\<rparr>)"
    and failed: "\<And>i lastError w err w0.
      clock w - startTime < timeoutMs \<Longrightarrow> tryConnect prt (env i) w = (Some err, w0) \<Longrightarrow>
      code err \<noteq> Some ''ECONNREFUSED'' \<Longrightarrow> P i lastError w (give_up timeoutMs (Some err) w0)"
    and launch_failed: "\<And>i lastError w err w0 launchErr w1.
      clock w - startTime < timeoutMs \<Longrightarrow> tryConnect prt (env i) w = (Some err, w0) \<Longrightarrow>
      code err = Some ''ECONNREFUSED'' \<Longrightarrow>
      (if gameProcess w0 = None then launchGame path (launch (env i)) w0 else (None, w0)) =
        (Some launchErr, w1) \<Longrightarrow>
      P i lastError w
        (\<lparr>connected' = False, commands = None, gameVersion = None,
          error' = Some (''Failed to launch game: '' @ message launchErr)\<rparr>, w1)"
    and retry: "\<And>i lastError w err w0 w1 res.
      clock w - startTime < timeoutMs \<Longrightarrow> tryConnect prt (env i) w = (Some err, w0) \<Longrightarrow>
      code err = Some ''ECONNREFUSED'' \<Longrightarrow>
      (if gameProcess w0 = None then launchGame path (launch (env i)) w0 else (None, w0)) =
        (None, w1) \<Longrightarrow>
      connect_loop parse env path prt timeoutMs startTime (i + 1) (Some err)
        (sleep parse (waitTime (clock w1 - startTime)) (sleepEvents (env i)) (sleepLate (env i)) w1)
        = Some res \<Longrightarrow>
      P (i + 1) (Some err)
        (sleep parse (waitTime (clock w1 - startTime)) (sleepEvents (env i)) (sleepLate (env i)) w1)
        res \<Longrightarrow>
      P i lastError w res"
  shows "P i lastError w res"
proof -
  define Q where "Q = (\<lambda>parse' env' path' prt' timeoutMs' startTime' i' lastError' w' res'.
      parse' = parse \<and> env' = env \<and> path' = path \<and> prt' = prt \<and> timeoutMs' = timeoutMs \<and>
      startTime' = startTime \<longrightarrow>
      connect_loop parse env path prt timeoutMs startTime i' lastError' w' = Some res' \<and>
      P i' lastError' w' res')"
  have "Q parse env path prt timeoutMs startTime i lastError w res"
  proof (rule connect_loop.raw_induct [where P = Q, OF _ assms(1)], goal_cases)
    case (1 f parse' env' path' prt' timeoutMs' startTime' i lastError w res)
    show ?case
      unfolding Q_def
    proof (intro impI, elim conjE)
      assume eq: "parse' = parse" "env' = env" "path' = path" "prt' = prt"
        "timeoutMs' = timeoutMs" "startTime' = startTime"
      note body = 1(2) [unfolded eq]
      have IH: "connect_loop parse env path prt timeoutMs startTime j le v = Some y \<and> P j le v y"
        if "f parse env path prt timeoutMs startTime j le v = Some y" for j le v y
        using 1(1) [OF that] by (simp add: Q_def)
      note unfold = connect_loop.simps [of parse env path prt timeoutMs startTime i lastError w]
      show "connect_loop parse env path prt timeoutMs startTime i lastError w = Some res \<and>
        P i lastError w res"
      proof (cases "clock w - startTime < timeoutMs")
        case False
        then have "res = give_up timeoutMs lastError w" using body by simp
        then show ?thesis using False stop [OF False] unfold by simp
      next
        case go: True
        obtain e w0 where tc: "tryConnect prt (env i) w = (e, w0)" by (metis surj_pair)
        show ?thesis
        proof (cases e)
          case None
          then obtain cmds w1 where
            fc: "fetchCommands parse (uuid (env i)) (flight (env i)) w0 = Some (cmds, w1)"
            and res: "res = (\<lparr>connected' = True, commands = Some cmds, gameVersion = None,
              error' = None\<rparr>, w1\<lparr>availableCommands := cmds, state := Connected\<rparr>)"
            using body go tc by (auto split: option.splits)
          show ?thesis
            using connected [OF go tc [unfolded None] fc] go tc None fc res unfold by simp
        next
          case (Some err)
          show ?thesis
          proof (cases "code err = Some ''ECONNREFUSED''")
            case False
            then have "res = give_up timeoutMs (Some err) w0" using body go tc Some by simp
            then show ?thesis
              using failed [OF go tc [unfolded Some] False] go tc Some False unfold by simp
          next
            case refused: True
            obtain l w1 where lg: "(if gameProcess w0 = None
                then launchGame path (launch (env i)) w0 else (None, w0)) = (l, w1)"
              by (metis surj_pair)
            show ?thesis
            proof (cases l)
              case (Some launchErr)
              then have "res = (\<lparr>connected' = False, commands = None, gameVersion = None,
                  error' = Some (''Failed to launch game: '' @ message launchErr)\<rparr>, w1)"
                using body go tc \<open>e = Some err\<close> refused lg by simp
              then show ?thesis
                using launch_failed [OF go tc [unfolded \<open>e = Some err\<close>] refused lg [unfolded Some]]
                  go tc \<open>e = Some err\<close> refused lg Some unfold
                by simp
            next
              case None
              let ?w2 = "sleep parse (waitTime (clock w1 - startTime)) (sleepEvents (env i))
                  (sleepLate (env i)) w1"
              have "f parse env path prt timeoutMs startTime (i + 1) (Some err) ?w2 = Some res"
                using body go tc \<open>e = Some err\<close> refused lg None by simp
              from IH [OF this] have
                rec: "connect_loop parse env path prt timeoutMs startTime (i + 1) (Some err) ?w2
                  = Some res"
                and p: "P (i + 1) (Some err) ?w2 res"
                by simp_all
              show ?thesis
                using retry [OF go tc [unfolded \<open>e = Some err\<close>] refused lg [unfolded None] rec p]
                  go tc \<open>e = Some err\<close> refused lg None rec unfold
                by simp
            qed
          qed
        qed
      qed
    qed
  qed
  then show ?thesis by (simp add: Q_def)
qed

lemma launch_step_frame:
  assumes "(if gameProcess w0 = None then launchGame path r w0 else (None, w0)) = (l, w1)"
  shows "config w1 = config w0" and "written w1 = written w0" and "dialled w1 = dialled w0"
    and "slept w1 = slept w0" and "state w1 = state w0"
    and "availableCommands w1 = availableCommands w0"
    and "\<exists>m. spawned w1 = spawned w0 @ replicate m (godotPath (config w0), path)"
proof -
  have w1: "w1 = (if gameProcess w0 = None then snd (launchGame path r w0) else w0)"
    using assms by (auto split: if_splits)
  show "config w1 = config w0" "written w1 = written w0" "dialled w1 = dialled w0"
    "slept w1 = slept w0" "state w1 = state w0" "availableCommands w1 = availableCommands w0"
    by (simp_all add: w1 launchGame_frame)
  show "\<exists>m. spawned w1 = spawned w0 @ replicate m (godotPath (config w0), path)"
  proof (cases "gameProcess w0 = None")
    case True
    then have "spawned w1 = spawned w0 @ replicate 1 (godotPath (config w0), path)"
      by (simp add: w1 launchGame_frame)
    then show ?thesis by blast
  next
    case False
    then have "spawned w1 = spawned w0 @ replicate 0 (godotPath (config w0), path)"
      by (auto simp: w1)
    then show ?thesis by blast
  qed
qed

lemma tryConnect_result:
  "tryConnect prt a w = (e, w0) \<Longrightarrow> w0 = snd (tryConnect prt a w)"
  by simp

text \<open>
  The retry loop runs with the state \<open>connecting\<close>, and sets it to \<open>connected\<close> only after
  \<open>fetchCommands\<close> has returned. So \<open>sendCommand\<close> inside \<open>fetchCommands\<close> takes its
  not-connected branch, and the loop can only succeed with an empty list.
\<close>

lemma connect_loop_no_commands:
  assumes "connect_loop parse env path prt timeoutMs startTime i lastError w = Some res"
    and "state w \<noteq> Connected"
    and "connected' (fst res)"
  shows "commands (fst res) = Some [] \<and> availableCommands (snd res) = [] \<and>
         written (snd res) = written w"
  using assms
proof (induction rule: connect_loop_induct)
  case (stop i lastError w)
  then show ?case by (simp add: give_up_def)
next
  case (connected i lastError w w0 cmds w1)
  have "state w0 \<noteq> Connected" "written w0 = written w"
    using connected.prems(1) tryConnect_result [OF connected.hyps(2)]
    by (simp_all add: tryConnect_frame)
  then show ?case
    using connected.hyps(3) by (simp add: fetchCommands_not_connected)
next
  case (failed i lastError w err w0)
  then show ?case by (simp add: give_up_def)
next
  case (launch_failed i lastError w err w0 launchErr w1)
  then show ?case by simp
next
  case (retry i lastError w err w0 w1 res)
  have 0: "state w0 \<noteq> Connected" "written w0 = written w"
    using retry.prems(1) tryConnect_result [OF retry.hyps(2)]
    by (simp_all add: tryConnect_frame)
  have 1: "state w1 \<noteq> Connected" "written w1 = written w"
    using 0 launch_step_frame [OF retry.hyps(4)] by simp_all
  show ?case
    using retry.IH [OF _ retry.prems(2)] 1 by (simp add: sleep_frame)
qed

text \<open>
  What a loop that returns has logged: every dial it made went to the port it was given,
  at a reading of the clock within its budget, and it dialled at least once exactly when
  it was entered within its budget; every launch ran the configured command on the path
  it was given.
\<close>

lemma connect_loop_logs:
  assumes "connect_loop parse env path prt timeoutMs startTime i lastError w = Some res"
  shows "config (snd res) = config w \<and>
         (\<exists>ds m. dialled (snd res) = dialled w @ map (\<lambda>c. (c, prt)) ds \<and>
                 list_all (\<lambda>c. c - startTime < timeoutMs) ds \<and>
                 (ds \<noteq> []) = (clock w - startTime < timeoutMs) \<and>
                 spawned (snd res) = spawned w @ replicate m (godotPath (config w), path))"
  using assms
proof (induction rule: connect_loop_induct)
  case (stop i lastError w)
  show ?case
    using stop
    by (intro conjI exI [of _ "[]"] exI [of _ 0]) (simp_all add: give_up_def)
next
  case (connected i lastError w w0 cmds w1)
  have 0: "config w0 = config w" "dialled w0 = dialled w @ [(clock w, prt)]"
    "spawned w0 = spawned w"
    using tryConnect_result [OF connected.hyps(2)] by (simp_all add: tryConnect_frame)
  have 1: "config w1 = config w0" "dialled w1 = dialled w0" "spawned w1 = spawned w0"
    using fetchCommands_frame [OF connected.hyps(3)] by simp_all
  show ?case
    using 0 1 connected.hyps(1)
    by (intro conjI exI [of _ "[clock w]"] exI [of _ 0]) simp_all
next
  case (failed i lastError w err w0)
  have 0: "config w0 = config w" "dialled w0 = dialled w @ [(clock w, prt)]"
    "spawned w0 = spawned w"
    using tryConnect_result [OF failed.hyps(2)] by (simp_all add: tryConnect_frame)
  show ?case
    using 0 failed.hyps(1)
    by (intro conjI exI [of _ "[clock w]"] exI [of _ 0]) (simp_all add: give_up_def)
next
  case (launch_failed i lastError w err w0 launchErr w1)
  have 0: "config w0 = config w" "dialled w0 = dialled w @ [(clock w, prt)]"
    "spawned w0 = spawned w"
    using tryConnect_result [OF launch_failed.hyps(2)] by (simp_all add: tryConnect_frame)
  note l = launch_step_frame [OF launch_failed.hyps(4)]
  obtain m where m: "spawned w1 = spawned w0 @ replicate m (godotPath (config w0), path)"
    using l(7) by blast
  show ?case
    using 0 l(1,3) m launch_failed.hyps(1)
    by (intro conjI exI [of _ "[clock w]"] exI [of _ m]) simp_all
next
  case (retry i lastError w err w0 w1 res)
  let ?w2 = "sleep parse (waitTime (clock w1 - startTime)) (sleepEvents (env i))
      (sleepLate (env i)) w1"
  have 0: "config w0 = config w" "dialled w0 = dialled w @ [(clock w, prt)]"
    "spawned w0 = spawned w"
    using tryConnect_result [OF retry.hyps(2)] by (simp_all add: tryConnect_frame)
  note l = launch_step_frame [OF retry.hyps(4)]
  obtain m where m: "spawned w1 = spawned w0 @ replicate m (godotPath (config w0), path)"
    using l(7) by blast
  have 2: "config ?w2 = config w" "dialled ?w2 = dialled w @ [(clock w, prt)]"
    "spawned ?w2 = spawned w @ replicate m (godotPath (config w), path)"
    using 0 l(1,3) m by (simp_all add: sleep_frame)
  obtain ds k where r: "config (snd res) = config w"
    "dialled (snd res) = dialled ?w2 @ map (\<lambda>c. (c, prt)) ds"
    "list_all (\<lambda>c. c - startTime < timeoutMs) ds"
    "spawned (snd res) = spawned ?w2 @ replicate k (godotPath (config w), path)"
    using retry.IH 2(1) by auto
  show ?case
    using r 2 retry.hyps(1)
    by (intro conjI exI [of _ "clock w # ds"] exI [of _ "m + k"]) (simp_all add: replicate_add)
qed


text \<open>
  The loop returns, and so does \<open>connect\<close>, when the wall clock is never set back by more
  than the dial took during which it was set: every turn that retries moves the clock on
  by at least a millisecond, so the budget is spent after finitely many turns. (The state
  is not \<open>connected\<close> inside the loop, so that \<open>fetchCommands\<close> never waits there.)
\<close>

lemma timer_delay_pos: "0 < timer_delay ms"
  by (simp add: timer_delay_def not_less)

lemma clock_sleep: "clock w < clock (sleep parse ms during late w)"
  using run_frame [of parse during "w\<lparr>slept := slept w @ [(clock w, ms)]\<rparr>"]
    timer_delay_pos [of ms]
  by (simp add: sleep_def Let_def)

lemma clock_launch_step:
  assumes "(if gameProcess w0 = None then launchGame path r w0 else (None, w0)) = (l, w1)"
  shows "clock w0 \<le> clock w1"
proof -
  have "w1 = (if gameProcess w0 = None then snd (launchGame path r w0) else w0)"
    using assms by (auto split: if_splits)
  then show ?thesis by (cases r) (simp_all add: launchGame_def Let_def)
qed

lemma connect_loop_returns:
  assumes forward: "\<And>i. 0 \<le> int (dialMs (env i)) + clockStep (env i)"
    and "state w \<noteq> Connected"
  shows "connect_loop parse env path prt timeoutMs startTime i lastError w \<noteq> None"
  using assms(2)
proof (induction "nat (timeoutMs - (clock w - startTime))" arbitrary: i lastError w
    rule: less_induct)
  case less
  note unfold = connect_loop.simps [of parse env path prt timeoutMs startTime i lastError w]
  show ?case
  proof (cases "clock w - startTime < timeoutMs")
    case False
    then show ?thesis using unfold by simp
  next
    case go: True
    obtain e w0 where tc: "tryConnect prt (env i) w = (e, w0)" by (metis surj_pair)
    have 0: "state w0 \<noteq> Connected" "clock w \<le> clock w0"
      using less.prems tryConnect_result [OF tc] forward [of i]
      by (simp_all add: tryConnect_frame) (simp add: tryConnect_def Let_def split: dial_result.splits)
    show ?thesis
    proof (cases e)
      case None
      then show ?thesis
        using unfold go tc 0(1) by (simp add: fetchCommands_not_connected)
    next
      case (Some err)
      show ?thesis
      proof (cases "code err = Some ''ECONNREFUSED''")
        case False
        then show ?thesis using unfold go tc Some by simp
      next
        case refused: True
        obtain l w1 where lg: "(if gameProcess w0 = None
            then launchGame path (launch (env i)) w0 else (None, w0)) = (l, w1)"
          by (metis surj_pair)
        have 1: "state w1 \<noteq> Connected" "clock w0 \<le> clock w1"
          using 0(1) launch_step_frame(5) [OF lg] clock_launch_step [OF lg] by simp_all
        show ?thesis
        proof (cases l)
          case (Some launchErr)
          then show ?thesis using unfold go tc \<open>e = Some err\<close> refused lg by simp
        next
          case None
          let ?w2 = "sleep parse (waitTime (clock w1 - startTime)) (sleepEvents (env i))
              (sleepLate (env i)) w1"
          have 2: "state ?w2 \<noteq> Connected" "clock w1 < clock ?w2"
            using 1(1) by (simp_all add: sleep_frame clock_sleep)
          have "nat (timeoutMs - (clock ?w2 - startTime)) < nat (timeoutMs - (clock w - startTime))"
            using go 0(2) 1(2) 2(2) by simp
          from less.hyps [OF this 2(1)] show ?thesis
            using unfold go tc \<open>e = Some err\<close> refused lg None by simp
        qed
      qed
    qed
  qed
qed

lemma connect_returns:
  assumes "\<And>i. 0 \<le> int (dialMs (env i)) + clockStep (env i)"
  shows "connect parse options killEvents env w \<noteq> None"
proof (cases "truthy_string (or_string (o_projectPath options) (projectPath (config w)))")
  case None
  then show ?thesis by (simp add: connect_def)
next
  case (Some pth)
  define w1 where "w1 = (if o_restart options = Some True then killGame parse killEvents w else w)"
  show ?thesis
  proof (cases "isConnected w1")
    case True
    then show ?thesis using Some by (simp add: connect_def Let_def w1_def)
  next
    case False
    have "connect_loop parse env pth (or_number (o_port options) (port (config w)))
        (or_number (o_timeoutMs options) (connectTimeoutMs (config w))) (clock w1) 0 None
        (w1\<lparr>state := Connecting\<rparr>) \<noteq> None"
      by (rule connect_loop_returns) (simp_all add: assms)
    then show ?thesis using Some False by (simp add: connect_def Let_def w1_def)
  qed
qed

section \<open>Connecting\<close>

text \<open>
  \<open>killGame\<close> on the launched client passes through \<open>mid_kill\<close>: that is the world in which
  it sleeps, and in which other calls are served meanwhile.
\<close>

lemma killGame_through_mid_kill:
  "killGame parse during (launched_client cfg) =
     (let wb = sleep parse 500 during 0 (mid_kill cfg);
          wc = (case gameProcess wb of
                  None \<Rightarrow> wb
                | Some q \<Rightarrow> if killed q then wb else kill SIGKILL wb)
      in wc\<lparr>gameProcess := None, state := Disconnected, buffer := [], pendingRequests := []\<rparr>)"
  by (simp add: killGame_def mid_kill_def launched_client_def connected_client_def
      new_client_def kill_def Let_def)





text \<open>
  Claim C3, as the code has it. A \<open>connect\<close> with the restart flag set and a project path
  resolvable first tears down the connection and the target process as \<open>killGame\<close> does,
  and then proceeds as a \<open>connect\<close> without the flag would from the state \<open>killGame\<close>
  left. The project path is checked before the flag: when none is resolvable the call
  returns the error and tears nothing down.
\<close>

theorem connect_restart_kills_first:
  assumes "o_restart options = Some True"
  shows "(truthy_string (or_string (o_projectPath options) (projectPath (config w))) \<noteq> None \<longrightarrow>
            connect parse options killEvents env w =
              connect parse (options\<lparr>o_restart := None\<rparr>) [] env (killGame parse killEvents w)) \<and>
         (truthy_string (or_string (o_projectPath options) (projectPath (config w))) = None \<longrightarrow>
            connect parse options killEvents env w =
              Some (\<lparr>connected' = False, commands = None, gameVersion = None,
                     error' = Some ''No project path specified. Set GAME_PROJECT_PATH or provide project_path parameter.''\<rparr>,
                    w))"
  using assms by (auto simp: connect_def Let_def killGame_frame)

theorem connect_restart_kills_first_witness:
  "o_restart (no_options\<lparr>o_restart := Some True\<rparr>) = Some True \<and>
   truthy_string (or_string (o_projectPath (no_options\<lparr>o_restart := Some True\<rparr>)) (projectPath (config (launched_client default_config)))) \<noteq> None \<and>
   connect (parse_reply ''u1'') (no_options\<lparr>o_restart := Some True\<rparr>) [] listening
       (launched_client default_config) =
     connect (parse_reply ''u1'') (no_options\<lparr>o_restart := Some True, o_restart := None\<rparr>) [] listening
       (killGame (parse_reply ''u1'') [] (launched_client default_config)) \<and>
   socket (killGame (parse_reply ''u1'') [] (launched_client default_config)) = None \<and>
   destroyed (killGame (parse_reply ''u1'') [] (launched_client default_config)) = [7] \<and>
   signals (killGame (parse_reply ''u1'') [] (launched_client default_config)) = [(42, SIGTERM)] \<and>
   state (killGame (parse_reply ''u1'') [] (launched_client default_config)) = Disconnected"
proof -
  have 1: "o_restart (no_options\<lparr>o_restart := Some True\<rparr>) = Some True" by simp
  have 2: "truthy_string (or_string (o_projectPath (no_options\<lparr>o_restart := Some True\<rparr>)) (projectPath (config (launched_client default_config)))) \<noteq> None"
    by (simp add: no_options_def launched_client_def connected_client_def new_client_def
        default_config_def or_string_def truthy_string_def)
  have 3: "socket (killGame (parse_reply ''u1'') [] (launched_client default_config)) = None \<and>
   destroyed (killGame (parse_reply ''u1'') [] (launched_client default_config)) = [7] \<and>
   signals (killGame (parse_reply ''u1'') [] (launched_client default_config)) = [(42, SIGTERM)] \<and>
   state (killGame (parse_reply ''u1'') [] (launched_client default_config)) = Disconnected"
    by (simp add: launched_client_def connected_client_def new_client_def killGame_def kill_def
        sleep_def run_def Let_def)
  show ?thesis
    using connect_restart_kills_first [OF 1, of "launched_client default_config" "parse_reply ''u1''" "[]" listening]
      1 2 3
    by simp
qed

text \<open>
  The claim as stated fails when no project path is resolvable: the call with the restart
  flag returns the error and leaves the socket and the target process as they were, where
  \<open>killGame\<close> would have destroyed the one and signalled the other.
\<close>

theorem connect_restart_without_path:
  "o_restart (no_options\<lparr>o_restart := Some True\<rparr>) = Some True \<and>
   socket (launched_client pathless_config) = Some 7 \<and>
   gameProcess (launched_client pathless_config) = Some \<lparr>pid = 42, killed = False\<rparr> \<and>
   connect (parse_reply ''u1'') (no_options\<lparr>o_restart := Some True\<rparr>) [] listening
       (launched_client pathless_config) =
     Some (\<lparr>connected' = False, commands = None, gameVersion = None,
            error' = Some ''No project path specified. Set GAME_PROJECT_PATH or provide project_path parameter.''\<rparr>,
           launched_client pathless_config) \<and>
   socket (killGame (parse_reply ''u1'') [] (launched_client pathless_config)) = None \<and>
   gameProcess (killGame (parse_reply ''u1'') [] (launched_client pathless_config)) = None \<and>
   signals (killGame (parse_reply ''u1'') [] (launched_client pathless_config)) = [(42, SIGTERM)]"
  by (simp add: connect_def launched_client_def connected_client_def new_client_def
      pathless_config_def default_config_def no_options_def or_string_def truthy_string_def killGame_def kill_def
      sleep_def run_def Let_def)

section \<open>The command list of a fresh connection\<close>

text \<open>The framing loop on a buffer that holds exactly one line.\<close>

lemma processBuffer_no_newline:
  "CHR 0x0A \<notin> set (buffer w) \<Longrightarrow> processBuffer parse w = w"
  by (subst processBuffer.simps) simp

lemma processBuffer_one_line:
  assumes "CHR 0x0A \<notin> set line" and "buffer w = line @ [CHR 0x0A]"
  shows "processBuffer parse w =
           (if list_all isWhitespace line then w\<lparr>buffer := []\<rparr>
            else handleMessage parse line (w\<lparr>buffer := []\<rparr>))"
proof -
  have t: "takeWhile (\<lambda>c. c \<noteq> CHR 0x0A) (line @ [CHR 0x0A]) = line"
    using assms(1) by (induction line) auto
  have "processBuffer parse w =
      processBuffer parse
        (if list_all isWhitespace line then w\<lparr>buffer := []\<rparr>
         else handleMessage parse line (w\<lparr>buffer := []\<rparr>))"
    by (subst processBuffer.simps) (simp add: assms(2) t Let_def)
  also have "\<dots> = (if list_all isWhitespace line then w\<lparr>buffer := []\<rparr>
            else handleMessage parse line (w\<lparr>buffer := []\<rparr>))"
    by (rule processBuffer_no_newline) (simp add: buffer_handleMessage)
  finally show ?thesis .
qed

text \<open>
  The scenario of the specification, run: refused, launched, then connected, with an empty
  command list. Asked while connected, the same target process answers with both commands.
\<close>

lemma scenario:
  "connect (parse_reply ''u1'') no_options [] launch_then_listen (new_client default_config) =
     Some (\<lparr>connected' = True, commands = Some [], gameVersion = None, error' = None\<rparr>,
           (new_client default_config)
             \<lparr>socket := Some 7, state := Connected,
              gameProcess := Some \<lparr>pid = 42, killed = False\<rparr>,
              dialled := [(0, 6789), (203, 6789)], spawned := [(''godot'', ''/game'')],
              slept := [(103, 100)], clock := 206\<rparr>)"
  apply (simp add: connect_def no_options_def new_client_def default_config_def or_string_def truthy_string_def
      or_number_def isConnected_def)
  apply (subst connect_loop.simps)
  apply (simp add: launch_then_listen_def listening_def refused_def tryConnect_def
      launchGame_def Let_def sleep_def run_def waitTime_def pow2_def timer_delay_def)
  apply (subst connect_loop.simps)
  apply (simp add: launch_then_listen_def listening_def tryConnect_def fetchCommands_def
      sendCommand_def isConnected_def commands_of_def not_connected_def Let_def)
  done

lemma would_answer:
  "map_option fst
     (fetchCommands (parse_reply ''u1'') ''u1'' [SocketData (''reply'' @ [CHR 0x0A])]
        ((new_client default_config)\<lparr>socket := Some 7, state := Connected\<rparr>)) =
   Some [screenshot_info, player_info]"
proof -
  have pb: "\<And>w. buffer w = ''reply'' @ [CHR 0x0A] \<Longrightarrow>
      processBuffer (parse_reply ''u1'') w =
        handleMessage (parse_reply ''u1'') ''reply'' (w\<lparr>buffer := []\<rparr>)"
    by (subst processBuffer_one_line [where line = "''reply''"]) (simp_all add: isWhitespace_def)
  have cs: "commands_of
      \<lparr>id' = ''u1'', success = True, data = map_of
         [(''id'', JStr ''u1''), (''success'', JBool True),
           (''data'', JObj [(''commands'', JArr
              [JObj [(''name'', JStr ''screenshot''),
                     (''description'', JStr ''Capture the game viewport'')],
               JObj [(''name'', JStr ''get_player_state''),
                     (''description'', JStr ''Get player position and health''),
                     (''args'', JObj [])]])])] ''data'', image' = None, error = None\<rparr> =
      [screenshot_info, player_info]"
    by (simp add: commands_of_def ListCommandsResponseSchema_def z_required_def
      z_array_def CommandInfoSchema_def z_optional_def z_record_def screenshot_info_def
      player_info_def)
  show ?thesis
    by (simp add: fetchCommands_def sendCommand_def isConnected_def new_client_def
      new_promise_def setTimeout_def default_config_def or_number_def completion_def step_def
      pb handleMessage_def decode_def parse_reply_def
      two_commands_reply_def GameResponseSchema_def z_required_def z_optional_def
      clearTimeout_def settle_def Let_def cs [simplified])
qed


text \<open>
  Claim C1 fails on the code. Every \<open>connect\<close> that dials (the restart flag is set, or the
  client was not connected) and reports success returns the empty command list and caches
  the empty list, and it has written nothing to the socket: the capability-list command is
  never sent, whatever the target process would answer. The state is still \<open>connecting\<close>
  when \<open>fetchCommands\<close> calls \<open>sendCommand\<close>, which therefore returns its not-connected
  response.
\<close>

theorem connect_never_fetches_commands:
  assumes "connect parse options killEvents env w = Some (r, w')"
    and "connected' r"
    and "o_restart options = Some True \<or> \<not> isConnected w"
  shows "commands r = Some [] \<and> availableCommands w' = [] \<and> written w' = written w"
proof -
  define w1 where "w1 = (if o_restart options = Some True then killGame parse killEvents w else w)"
  have nc: "\<not> isConnected w1" and wr: "written w1 = written w"
    using assms(3) by (auto simp: w1_def killGame_frame isConnected_def)
  obtain pth where pth: "truthy_string (or_string (o_projectPath options) (projectPath (config w))) = Some pth"
    using assms(1,2) by (cases "truthy_string (or_string (o_projectPath options) (projectPath (config w)))")
      (auto simp: connect_def)
  have "connect_loop parse env pth (or_number (o_port options) (port (config w)))
          (or_number (o_timeoutMs options) (connectTimeoutMs (config w))) (clock w1) 0 None
          (w1\<lparr>state := Connecting\<rparr>) = Some (r, w')"
    using assms(1) pth nc by (simp add: connect_def Let_def w1_def)
  from connect_loop_no_commands [OF this] assms(2) wr show ?thesis by simp
qed

theorem connect_never_fetches_commands_witness:
  "connect (parse_reply ''u1'') no_options [] launch_then_listen (new_client default_config) =
     Some (\<lparr>connected' = True, commands = Some [], gameVersion = None, error' = None\<rparr>,
           (new_client default_config)
             \<lparr>socket := Some 7, state := Connected,
              gameProcess := Some \<lparr>pid = 42, killed = False\<rparr>,
              dialled := [(0, 6789), (203, 6789)], spawned := [(''godot'', ''/game'')],
              slept := [(103, 100)], clock := 206\<rparr>) \<and>
   \<not> isConnected (new_client default_config) \<and>
   written (new_client default_config) = [] \<and>
   map_option fst
     (fetchCommands (parse_reply ''u1'') ''u1'' [SocketData (''reply'' @ [CHR 0x0A])]
        ((new_client default_config)\<lparr>socket := Some 7, state := Connected\<rparr>)) =
   Some [screenshot_info, player_info]"
proof -
  have nc: "o_restart no_options = Some True \<or> \<not> isConnected (new_client default_config)"
    by (simp add: isConnected_def new_client_def)
  have ok: "connected' \<lparr>connected' = True, commands = Some [], gameVersion = None, error' = None\<rparr>"
    by simp
  have "written ((new_client default_config)
             \<lparr>socket := Some 7, state := Connected,
              gameProcess := Some \<lparr>pid = 42, killed = False\<rparr>,
              dialled := [(0, 6789), (203, 6789)], spawned := [(''godot'', ''/game'')],
              slept := [(103, 100)], clock := 206\<rparr>) = written (new_client default_config)"
    using connect_never_fetches_commands [OF scenario ok nc] by simp
  then show ?thesis
    using scenario would_answer nc by (simp add: new_client_def isConnected_def)
qed

section \<open>Killing with calls in flight\<close>

text \<open>
  The other paths that remove a pending entry cancel its timer with the removal: a matching
  response, a write failure, and the timer's own firing (\<open>handleDisconnect\<close> is covered
  above).
\<close>

lemma handleMessage_cancels_timer:
  assumes "decode parse line = Inr response"
    and "map_of (pendingRequests w) (id' response) = Some pending"
  shows "\<not> armed (timeoutHandle pending) (handleMessage parse line w) \<and>
         map_of (pendingRequests (handleMessage parse line w)) (id' response) = None"
  using assms
  by (simp add: handleMessage_def settle_def clearTimeout_def armed_def Let_def delete_conv')

lemma writeCallback_cancels_timer:
  assumes "k < length (written w)"
  shows "\<not> armed (w_timeoutHandle (written w ! k)) (writeCallback k (Some msg) w) \<and>
         map_of (pendingRequests (writeCallback k (Some msg) w))
           (req_id (w_request (written w ! k))) = None"
  using assms
  by (simp add: writeCallback_def settle_def clearTimeout_def armed_def Let_def delete_conv')

lemma fireTimer_disarms: "\<not> armed h (fireTimer h w)"
  by (simp add: fireTimer_def settle_def armed_def Let_def split: option.splits)


text \<open>
  Claim C5 fails on the code. \<open>killGame\<close> empties the pending table without cancelling the
  timers of the entries it drops and without completing their calls: with no events
  delivered meanwhile it leaves the timer store and the promise store as they were. For
  the client with one call in flight, the call's timer is still armed and its promise still
  unsettled after the kill (also after the socket's close event that follows), and the
  call completes only when that timer fires, with the timeout failure. The other paths
  that remove an entry pair the removal with \<open>clearTimeout\<close>: after a disconnect the same
  timer is not armed.
\<close>

theorem killGame_leaves_timers_armed:
  "pendingRequests (killGame parse [] w) = [] \<and>
   timers (killGame parse [] w) = timers w \<and>
   promises (killGame parse [] w) = promises w \<and>
   map_of (pendingRequests one_pending) ''a'' = Some \<lparr>promise = 0, timeoutHandle = 0\<rparr> \<and>
   armed 0 (killGame parse [] one_pending) \<and>
   unsettled 0 (killGame parse [] one_pending) \<and>
   armed 0 (handleDisconnect (killGame parse [] one_pending)) \<and>
   completion 0 (fireTimer 0 (killGame parse [] one_pending)) =
     Some (Resolved \<lparr>id' = ''a'', success = False, data = None, image' = None,
                     error = Some ''Command timeout after 10000ms''\<rparr>) \<and>
   \<not> armed 0 (handleDisconnect one_pending)"
proof -
  have general: "pendingRequests (killGame parse [] w) = [] \<and>
      timers (killGame parse [] w) = timers w \<and> promises (killGame parse [] w) = promises w" for w
    by (simp add: killGame_def kill_def sleep_def run_def Let_def split: option.splits)
  note k = general [of one_pending]
  have "armed 0 (killGame parse [] one_pending)" "unsettled 0 (killGame parse [] one_pending)"
    "armed 0 (handleDisconnect (killGame parse [] one_pending))"
    using k by (simp_all add: one_pending_eq armed_def unsettled_def handleDisconnect_def Let_def)
  moreover have "completion 0 (fireTimer 0 (killGame parse [] one_pending)) =
     Some (Resolved \<lparr>id' = ''a'', success = False, data = None, image' = None,
                     error = Some ''Command timeout after 10000ms''\<rparr>)"
    using k
    by (simp add: one_pending_eq fireTimer_def settle_def completion_def failure_def
        show_int_10000 Let_def)
  moreover have "\<not> armed 0 (handleDisconnect one_pending)"
    by (simp add: one_pending_eq handleDisconnect_def reject_pending_def settle_def
        clearTimeout_def armed_def Let_def)
  moreover have "map_of (pendingRequests one_pending) ''a'' =
      Some \<lparr>promise = 0, timeoutHandle = 0\<rparr>"
    by (simp add: one_pending_eq)
  ultimately show ?thesis using general [of w] by simp
qed

section \<open>Options and defaults\<close>

text \<open>
  A run with every option falsy, on a configuration away from the defaults: the dials go
  to the configured port 7001, the launch runs the configured command on the configured
  path, and the call gives up once the configured 250 ms have passed, after two dials.
\<close>

lemma falsy_run:
  "connect (parse_reply ''u1'') falsy_options [] busy (new_client custom_config) =
     Some (\<lparr>connected' = False, commands = None, gameVersion = None,
            error' = Some ''connect ECONNREFUSED 127.0.0.1:7001''\<rparr>,
           (new_client custom_config)
             \<lparr>gameProcess := Some \<lparr>pid = 42, killed = False\<rparr>,
              dialled := [(0, 7001), (240, 7001)],
              spawned := [(''godot4'', ''/projects/demo'')],
              slept := [(140, 100), (280, 100)], clock := 380\<rparr>)"
  apply (simp add: connect_def falsy_options_def new_client_def custom_config_def or_string_def
      truthy_string_def or_number_def isConnected_def)
  apply (subst connect_loop.simps)
  apply (simp add: busy_def listening_def tryConnect_def launchGame_def Let_def
      sleep_def run_def waitTime_def pow2_def timer_delay_def)
  apply (subst connect_loop.simps)
  apply (simp add: busy_def listening_def tryConnect_def launchGame_def Let_def
      sleep_def run_def waitTime_def pow2_def timer_delay_def)
  apply (subst connect_loop.simps)
  apply (simp add: give_up_def or_string_def truthy_string_def)
  done

lemma falsy_send:
  "sendCommand ''screenshot'' [] (Some 0) ''a'' (connected_client custom_config) =
     (Awaiting 0,
      (connected_client custom_config)
        \<lparr>pendingRequests := [(''a'', \<lparr>promise = 0, timeoutHandle = 0\<rparr>)],
         timers := [Some \<lparr>t_id = ''a'', t_promise = 0, t_timeout = 777\<rparr>],
         promises := [None],
         written := [\<lparr>w_socket = 7,
                      w_request = \<lparr>req_id = ''a'', command = ''screenshot'', args = []\<rparr>,
                      w_promise = 0, w_timeoutHandle = 0\<rparr>]\<rparr>)"
  by (simp add: sendCommand_def connected_client_def new_client_def custom_config_def
      isConnected_def or_number_def new_promise_def setTimeout_def Let_def)

text \<open>
  Claim C10. In \<open>connect\<close>, an option that is falsy (port \<open>0\<close>, timeoutMs \<open>0\<close>, an empty
  projectPath) is treated as absent: the call behaves exactly as the call without the
  option, which is the call with the configured default in its place. Likewise a
  \<open>sendCommand\<close> with timeoutMs \<open>0\<close> behaves as the one without a timeout, that is with the
  configured default command timeout.

  And the configured values are the ones used. A \<open>sendCommand\<close> on a connected client with
  the timeout absent or \<open>0\<close> arms a timer that carries the configured command timeout.
  A \<open>connect\<close> with port, timeoutMs and projectPath absent or falsy that returns: fails with
  the no-project-path error, changing nothing, when the configuration has no project path
  either; and otherwise has dialled the configured port only, each time at a wall-clock
  reading less than the configured connect timeout after the start of its retry loop, at
  least once unless it was connected (after the \<open>killGame\<close> of a restart, if any) or the
  configured connect timeout is not positive, and has launched nothing but the configured
  command on the configured project path. The call returns when the wall clock is never
  set back by more than a dial took.
\<close>

theorem falsy_options_take_defaults:
  "connect parse (options\<lparr>o_port := Some 0\<rparr>) killEvents env w =
     connect parse (options\<lparr>o_port := None\<rparr>) killEvents env w \<and>
   connect parse (options\<lparr>o_port := Some 0\<rparr>) killEvents env w =
     connect parse (options\<lparr>o_port := Some (port (config w))\<rparr>) killEvents env w \<and>
   connect parse (options\<lparr>o_timeoutMs := Some 0\<rparr>) killEvents env w =
     connect parse (options\<lparr>o_timeoutMs := None\<rparr>) killEvents env w \<and>
   connect parse (options\<lparr>o_timeoutMs := Some 0\<rparr>) killEvents env w =
     connect parse (options\<lparr>o_timeoutMs := Some (connectTimeoutMs (config w))\<rparr>) killEvents env w \<and>
   connect parse (options\<lparr>o_projectPath := Some []\<rparr>) killEvents env w =
     connect parse (options\<lparr>o_projectPath := None\<rparr>) killEvents env w \<and>
   connect parse (options\<lparr>o_projectPath := Some []\<rparr>) killEvents env w =
     connect parse (options\<lparr>o_projectPath := projectPath (config w)\<rparr>) killEvents env w \<and>
   sendCommand cmd arguments (Some 0) uid w = sendCommand cmd arguments None uid w \<and>
   sendCommand cmd arguments (Some 0) uid w =
     sendCommand cmd arguments (Some (commandTimeoutMs (config w))) uid w \<and>
   (isConnected w \<and> (timeoutMs = None \<or> timeoutMs = Some 0) \<longrightarrow>
      (\<exists>p h w1.
         sendCommand cmd arguments timeoutMs uid w = (Awaiting p, w1) \<and>
         map_of (pendingRequests w1) uid = Some \<lparr>promise = p, timeoutHandle = h\<rparr> \<and>
         armed h w1 \<and>
         timers w1 ! h =
           Some \<lparr>t_id = uid, t_promise = p, t_timeout = commandTimeoutMs (config w)\<rparr>)) \<and>
   ((o_port options = None \<or> o_port options = Some 0) \<and>
    (o_timeoutMs options = None \<or> o_timeoutMs options = Some 0) \<and>
    (o_projectPath options = None \<or> o_projectPath options = Some []) \<and>
    connect parse options killEvents env w = Some (r, w') \<longrightarrow>
      (case truthy_string (projectPath (config w)) of
         None \<Rightarrow>
           w' = w \<and>
           r = \<lparr>connected' = False, commands = None, gameVersion = None,
                error' = Some ''No project path specified. Set GAME_PROJECT_PATH or provide project_path parameter.''\<rparr>
       | Some pth \<Rightarrow>
           (\<exists>ds m.
              dialled w' = dialled w @ map (\<lambda>c. (c, port (config w))) ds \<and>
              list_all
                (\<lambda>c. c - clock (if o_restart options = Some True
                                 then killGame parse killEvents w else w)
                      < connectTimeoutMs (config w)) ds \<and>
              (ds \<noteq> []) =
                (\<not> isConnected (if o_restart options = Some True
                                 then killGame parse killEvents w else w) \<and>
                 0 < connectTimeoutMs (config w)) \<and>
              spawned w' = spawned w @ replicate m (godotPath (config w), pth)))) \<and>
   ((\<forall>i. 0 \<le> int (dialMs (env i)) + clockStep (env i)) \<longrightarrow>
      connect parse options killEvents env w \<noteq> None)"
proof -
  have returns: "connect parse options killEvents env w \<noteq> None"
    if "\<forall>i. 0 \<le> int (dialMs (env i)) + clockStep (env i)"
    using that by (intro connect_returns) simp
  have equations:
    "connect parse (options\<lparr>o_port := Some 0\<rparr>) killEvents env w =
       connect parse (options\<lparr>o_port := None\<rparr>) killEvents env w \<and>
     connect parse (options\<lparr>o_port := Some 0\<rparr>) killEvents env w =
       connect parse (options\<lparr>o_port := Some (port (config w))\<rparr>) killEvents env w \<and>
     connect parse (options\<lparr>o_timeoutMs := Some 0\<rparr>) killEvents env w =
       connect parse (options\<lparr>o_timeoutMs := None\<rparr>) killEvents env w \<and>
     connect parse (options\<lparr>o_timeoutMs := Some 0\<rparr>) killEvents env w =
       connect parse (options\<lparr>o_timeoutMs := Some (connectTimeoutMs (config w))\<rparr>) killEvents env w \<and>
     connect parse (options\<lparr>o_projectPath := Some []\<rparr>) killEvents env w =
       connect parse (options\<lparr>o_projectPath := None\<rparr>) killEvents env w \<and>
     connect parse (options\<lparr>o_projectPath := Some []\<rparr>) killEvents env w =
       connect parse (options\<lparr>o_projectPath := projectPath (config w)\<rparr>) killEvents env w \<and>
     sendCommand cmd arguments (Some 0) uid w = sendCommand cmd arguments None uid w \<and>
     sendCommand cmd arguments (Some 0) uid w =
       sendCommand cmd arguments (Some (commandTimeoutMs (config w))) uid w"
    by (simp add: connect_def sendCommand_def or_number_def or_string_def truthy_string_def
        split: option.splits)
  have send: "\<exists>p h w1.
         sendCommand cmd arguments timeoutMs uid w = (Awaiting p, w1) \<and>
         map_of (pendingRequests w1) uid = Some \<lparr>promise = p, timeoutHandle = h\<rparr> \<and>
         armed h w1 \<and>
         timers w1 ! h =
           Some \<lparr>t_id = uid, t_promise = p, t_timeout = commandTimeoutMs (config w)\<rparr>"
    if c: "isConnected w" and t: "timeoutMs = None \<or> timeoutMs = Some 0"
  proof -
    obtain s where s: "socket w = Some s" using c by (auto simp: isConnected_def)
    have d: "or_number timeoutMs (commandTimeoutMs (config w)) = commandTimeoutMs (config w)"
      using t by (auto simp: or_number_def)
    define w1 where "w1 = snd (sendCommand cmd arguments timeoutMs uid w)"
    have "sendCommand cmd arguments timeoutMs uid w = (Awaiting (length (promises w)), w1)"
      using c s by (simp add: w1_def sendCommand_def new_promise_def setTimeout_def Let_def)
    moreover have "map_of (pendingRequests w1) uid =
        Some \<lparr>promise = length (promises w), timeoutHandle = length (timers w)\<rparr>"
      using c s
      by (simp add: w1_def sendCommand_def new_promise_def setTimeout_def Let_def update_conv')
    moreover have "armed (length (timers w)) w1"
      using c s
      by (simp add: w1_def sendCommand_def new_promise_def setTimeout_def Let_def armed_def)
    moreover have "timers w1 ! length (timers w) =
        Some \<lparr>t_id = uid, t_promise = length (promises w),
              t_timeout = commandTimeoutMs (config w)\<rparr>"
      using c s d
      by (simp add: w1_def sendCommand_def new_promise_def setTimeout_def Let_def)
    ultimately show ?thesis by blast
  qed
  have conn: "case truthy_string (projectPath (config w)) of
         None \<Rightarrow>
           w' = w \<and>
           r = \<lparr>connected' = False, commands = None, gameVersion = None,
                error' = Some ''No project path specified. Set GAME_PROJECT_PATH or provide project_path parameter.''\<rparr>
       | Some pth \<Rightarrow>
           (\<exists>ds m.
              dialled w' = dialled w @ map (\<lambda>c. (c, port (config w))) ds \<and>
              list_all
                (\<lambda>c. c - clock (if o_restart options = Some True
                                 then killGame parse killEvents w else w)
                      < connectTimeoutMs (config w)) ds \<and>
              (ds \<noteq> []) =
                (\<not> isConnected (if o_restart options = Some True
                                 then killGame parse killEvents w else w) \<and>
                 0 < connectTimeoutMs (config w)) \<and>
              spawned w' = spawned w @ replicate m (godotPath (config w), pth))"
    if f: "o_port options = None \<or> o_port options = Some 0"
      "o_timeoutMs options = None \<or> o_timeoutMs options = Some 0"
      "o_projectPath options = None \<or> o_projectPath options = Some []"
      and c: "connect parse options killEvents env w = Some (r, w')"
  proof -
    define w1 where "w1 = (if o_restart options = Some True
      then killGame parse killEvents w else w)"
    have d: "or_number (o_port options) (port (config w)) = port (config w)"
      "or_number (o_timeoutMs options) (connectTimeoutMs (config w)) = connectTimeoutMs (config w)"
      "truthy_string (or_string (o_projectPath options) (projectPath (config w))) =
         truthy_string (projectPath (config w))"
      using f by (auto simp: or_number_def or_string_def truthy_string_def)
    have k: "dialled w1 = dialled w" "spawned w1 = spawned w" "config w1 = config w"
      by (simp_all add: w1_def killGame_frame)
    show ?thesis
    proof (cases "truthy_string (projectPath (config w))")
      case None
      then show ?thesis using c d by (auto simp: connect_def)
    next
      case (Some pth)
      have "\<exists>ds m.
              dialled w' = dialled w @ map (\<lambda>c. (c, port (config w))) ds \<and>
              list_all (\<lambda>c. c - clock w1 < connectTimeoutMs (config w)) ds \<and>
              (ds \<noteq> []) = (\<not> isConnected w1 \<and> 0 < connectTimeoutMs (config w)) \<and>
              spawned w' = spawned w @ replicate m (godotPath (config w), pth)"
      proof (cases "isConnected w1")
        case True
        then have "w' = w1" using c d Some by (simp add: connect_def Let_def w1_def)
        then show ?thesis
          using True k by (intro exI [of _ "[]"] exI [of _ 0]) simp
      next
        case False
        then have loop: "connect_loop parse env pth (port (config w)) (connectTimeoutMs (config w))
            (clock w1) 0 None (w1\<lparr>state := Connecting\<rparr>) = Some (r, w')"
          using c d Some by (simp add: connect_def Let_def w1_def)
        from connect_loop_logs [OF loop] False k show ?thesis by simp
      qed
      then show ?thesis using Some by (simp add: w1_def)
    qed
  qed
  show ?thesis using equations send conn returns by blast
qed

theorem falsy_options_take_defaults_witness:
  "isConnected (connected_client custom_config) \<and>
   commandTimeoutMs (config (connected_client custom_config)) = 777 \<and>
   sendCommand ''screenshot'' [] (Some 0) ''a'' (connected_client custom_config) =
     (Awaiting 0,
      (connected_client custom_config)
        \<lparr>pendingRequests := [(''a'', \<lparr>promise = 0, timeoutHandle = 0\<rparr>)],
         timers := [Some \<lparr>t_id = ''a'', t_promise = 0, t_timeout = 777\<rparr>],
         promises := [None],
         written := [\<lparr>w_socket = 7,
                      w_request = \<lparr>req_id = ''a'', command = ''screenshot'', args = []\<rparr>,
                      w_promise = 0, w_timeoutHandle = 0\<rparr>]\<rparr>) \<and>
   (\<exists>p h w1.
      sendCommand ''screenshot'' [] (Some 0) ''a'' (connected_client custom_config) =
        (Awaiting p, w1) \<and>
      map_of (pendingRequests w1) ''a'' = Some \<lparr>promise = p, timeoutHandle = h\<rparr> \<and>
      armed h w1 \<and>
      timers w1 ! h = Some \<lparr>t_id = ''a'', t_promise = p, t_timeout = 777\<rparr>) \<and>
   o_port falsy_options = Some 0 \<and> o_timeoutMs falsy_options = Some 0 \<and>
   o_projectPath falsy_options = Some [] \<and>
   (\<forall>i. 0 \<le> int (dialMs (busy i)) + clockStep (busy i)) \<and>
   truthy_string (projectPath (config (new_client custom_config))) = Some ''/projects/demo'' \<and>
   port (config (new_client custom_config)) = 7001 \<and>
   connectTimeoutMs (config (new_client custom_config)) = 250 \<and>
   godotPath (config (new_client custom_config)) = ''godot4'' \<and>
   connect (parse_reply ''u1'') falsy_options [] busy (new_client custom_config) =
     Some (\<lparr>connected' = False, commands = None, gameVersion = None,
            error' = Some ''connect ECONNREFUSED 127.0.0.1:7001''\<rparr>,
           (new_client custom_config)
             \<lparr>gameProcess := Some \<lparr>pid = 42, killed = False\<rparr>,
              dialled := [(0, 7001), (240, 7001)],
              spawned := [(''godot4'', ''/projects/demo'')],
              slept := [(140, 100), (280, 100)], clock := 380\<rparr>) \<and>
   (\<exists>ds m. [(0 :: int, 7001 :: int), (240, 7001)] = map (\<lambda>c. (c, 7001)) ds \<and>
           list_all (\<lambda>c. c - 0 < 250) ds \<and> ds \<noteq> [] \<and>
           [(''godot4'', ''/projects/demo'')] = replicate m (''godot4'', ''/projects/demo''))"
proof -
  let ?r = "\<lparr>connected' = False, commands = None, gameVersion = None,
            error' = Some ''connect ECONNREFUSED 127.0.0.1:7001''\<rparr>"
  let ?w = "(new_client custom_config)
             \<lparr>gameProcess := Some \<lparr>pid = 42, killed = False\<rparr>,
              dialled := [(0, 7001), (240, 7001)],
              spawned := [(''godot4'', ''/projects/demo'')],
              slept := [(140, 100), (280, 100)], clock := 380\<rparr>"
  note t = falsy_options_take_defaults [of "parse_reply ''u1''" falsy_options "[]" busy
      "new_client custom_config" "''screenshot''" "[]" "''a''" "Some 0" ?r ?w]
  have f: "o_port falsy_options = Some 0" "o_timeoutMs falsy_options = Some 0"
    "o_projectPath falsy_options = Some []" "o_restart falsy_options \<noteq> Some True"
    by (simp_all add: falsy_options_def)
  have c: "truthy_string (projectPath (config (new_client custom_config))) =
      Some ''/projects/demo''"
    "port (config (new_client custom_config)) = 7001"
    "connectTimeoutMs (config (new_client custom_config)) = 250"
    "godotPath (config (new_client custom_config)) = ''godot4''"
    "dialled (new_client custom_config) = []" "spawned (new_client custom_config) = []"
    "clock (new_client custom_config) = 0" "\<not> isConnected (new_client custom_config)"
    by (simp_all add: new_client_def custom_config_def truthy_string_def isConnected_def)
  have "case truthy_string (projectPath (config (new_client custom_config))) of
         None \<Rightarrow> ?w = new_client custom_config \<and>
           ?r = \<lparr>connected' = False, commands = None, gameVersion = None,
                error' = Some ''No project path specified. Set GAME_PROJECT_PATH or provide project_path parameter.''\<rparr>
       | Some pth \<Rightarrow>
           (\<exists>ds m.
              dialled ?w = dialled (new_client custom_config) @
                map (\<lambda>c. (c, port (config (new_client custom_config)))) ds \<and>
              list_all
                (\<lambda>c. c - clock (if o_restart falsy_options = Some True
                                 then killGame (parse_reply ''u1'') [] (new_client custom_config)
                                 else new_client custom_config)
                      < connectTimeoutMs (config (new_client custom_config))) ds \<and>
              (ds \<noteq> []) =
                (\<not> isConnected (if o_restart falsy_options = Some True
                                 then killGame (parse_reply ''u1'') [] (new_client custom_config)
                                 else new_client custom_config) \<and>
                 0 < connectTimeoutMs (config (new_client custom_config))) \<and>
              spawned ?w = spawned (new_client custom_config) @
                replicate m (godotPath (config (new_client custom_config)), pth))"
    using t f(1,2,3) falsy_run by blast
  then have ex: "\<exists>ds m. [(0 :: int, 7001 :: int), (240, 7001)] = map (\<lambda>c. (c, 7001)) ds \<and>
           list_all (\<lambda>c. c - 0 < 250) ds \<and> ds \<noteq> [] \<and>
           [(''godot4'', ''/projects/demo'')] = replicate m (''godot4'', ''/projects/demo'')"
    using f(4) c by simp
  have s: "isConnected (connected_client custom_config)"
    "commandTimeoutMs (config (connected_client custom_config)) = 777"
    by (simp_all add: connected_client_def new_client_def custom_config_def isConnected_def)
  note t2 = falsy_options_take_defaults [of "parse_reply ''u1''" falsy_options "[]" busy
      "connected_client custom_config" "''screenshot''" "[]" "''a''" "Some 0" ?r ?w]
  have "\<exists>p h w1.
      sendCommand ''screenshot'' [] (Some 0) ''a'' (connected_client custom_config) =
        (Awaiting p, w1) \<and>
      map_of (pendingRequests w1) ''a'' = Some \<lparr>promise = p, timeoutHandle = h\<rparr> \<and>
      armed h w1 \<and>
      timers w1 ! h = Some \<lparr>t_id = ''a'', t_promise = p,
        t_timeout = commandTimeoutMs (config (connected_client custom_config))\<rparr>"
    using t2 s(1) by blast
  then have armed: "\<exists>p h w1.
      sendCommand ''screenshot'' [] (Some 0) ''a'' (connected_client custom_config) =
        (Awaiting p, w1) \<and>
      map_of (pendingRequests w1) ''a'' = Some \<lparr>promise = p, timeoutHandle = h\<rparr> \<and>
      armed h w1 \<and>
      timers w1 ! h = Some \<lparr>t_id = ''a'', t_promise = p, t_timeout = 777\<rparr>"
    unfolding s(2) .
  have fw: "\<forall>i. 0 \<le> int (dialMs (busy i)) + clockStep (busy i)"
    by (simp add: busy_def listening_def)
  show ?thesis
    using s falsy_send armed f(1,2,3) fw c(1,2,3,4) falsy_run ex by (intro conjI) blast+
qed

section \<open>Backoff\<close>













end
